theory Spec2Isabelle
  imports Complex_Main "HOL-Library.Sublist"
begin

section \<open>The Plaza Bonita hook: a scheduled worker announcing the opening of a venue\<close>

text \<open>
  The worker (\<^verbatim>\<open>src/index.ts\<close>) asks an hours API for today's business hours, parses the
  opening hour out of free text, waits until that hour and posts a message carrying the
  day number kept in a database, which it then increments.

  Modelling decisions, valid for the whole development:
  \<^item> An instant is an \<open>int\<close>: milliseconds since the Unix epoch, as the date library's \<open>ts\<close>.
  \<^item> A time zone is the function giving its offset from UTC, in minutes, at an instant.
    The zone table of \<^verbatim>\<open>America/Los_Angeles\<close> belongs to the runtime, so the zone is a
    parameter; \<open>None\<close> stands for a runtime that does not know the zone, which makes
    every DateTime built in it invalid.
  \<^item> The system zone of the runtime is UTC and its locale is \<^verbatim>\<open>en-US\<close> (the platform the
    worker is deployed on), so that a day of the system zone has 86400000 ms.
  \<^item> Every call of \<^verbatim>\<open>DateTime.now()\<close> reads the clock again: each function takes one
    instant per call it makes, in the order of the calls.
  \<^item> Strings are lists of 8-bit characters, read as the code units 0..255.
  \<^item> Numbers that the program computes with are integers (milliseconds, day numbers);
    the fractional number of days between two instants is a rational.
  \<^item> A thrown exception is the \<open>Inl\<close> of a sum; JavaScript's \<^verbatim>\<open>undefined\<close> result of a
    function is \<open>None\<close>.
\<close>

subsection \<open>Constants\<close>

definition PLAZA_BONITA_ID :: int where
  "PLAZA_BONITA_ID = 39156327"

definition FALLBACK_HOUR :: int where
  "FALLBACK_HOUR = 10"

definition FALLBACK_TIMEOUT :: int where
  "FALLBACK_TIMEOUT = 3 * 60 * 1000"

definition MS_PER_DAY :: int where
  "MS_PER_DAY = 24 * 60 * 60 * 1000"

text \<open>
  \<^verbatim>\<open>Date.UTC\<close>: the instant of a civil date and time of day in UTC. The day count is the
  usual proleptic Gregorian one (months 1..12, shifted so that the year starts in March).
\<close>

definition days_from_civil :: "int \<Rightarrow> int \<Rightarrow> int \<Rightarrow> int" where
  "days_from_civil y m d =
     (let y' = (if m \<le> 2 then y - 1 else y);
          era = y' div 400;
          yoe = y' - era * 400;
          mp = (m + 9) mod 12;
          doy = (153 * mp + 2) div 5 + d - 1;
          doe = yoe * 365 + yoe div 4 - yoe div 100 + doy
      in era * 146097 + doe - 719468)"

definition time_of_day_ms :: "int \<Rightarrow> int \<Rightarrow> int \<Rightarrow> int \<Rightarrow> int" where
  "time_of_day_ms h mi s ms = h * 3600000 + mi * 60000 + s * 1000 + ms"

definition Date_UTC :: "int \<Rightarrow> int \<Rightarrow> int \<Rightarrow> int \<Rightarrow> int \<Rightarrow> int \<Rightarrow> int \<Rightarrow> int" where
  "Date_UTC y m d h mi s ms = days_from_civil y m d * MS_PER_DAY + time_of_day_ms h mi s ms"

subsection \<open>Errors and JavaScript values\<close>

datatype error = TypeError | SyntaxError | InvalidArgumentError | NetworkError | Error

text \<open>
  The values a parsed JSON body is made of, and \<^verbatim>\<open>undefined\<close>, which a property read
  yields for a missing key. An object is the list of its own properties.
\<close>

datatype jsval =
    Undefined
  | Null
  | Bool bool
  | Num int
  | Str string
  | Arr "jsval list"
  | Obj "(string \<times> jsval) list"

text \<open>
  \<^verbatim>\<open>v.k\<close> and \<^verbatim>\<open>v[k]\<close> for the keys the program reads (\<^verbatim>\<open>success\<close>, \<^verbatim>\<open>results\<close>,
  \<^verbatim>\<open>location\<close> and the seven weekday names): none of them is a built-in property of a
  string, number, boolean, array or object, so only an own property of an object is found.
  Reading a property of \<^verbatim>\<open>undefined\<close> or \<^verbatim>\<open>null\<close> throws a TypeError.
\<close>

fun getProp :: "jsval \<Rightarrow> string \<Rightarrow> error + jsval" where
  "getProp Undefined k = Inl TypeError"
| "getProp Null k = Inl TypeError"
| "getProp (Obj ps) k = Inr (case map_of ps k of None \<Rightarrow> Undefined | Some v \<Rightarrow> v)"
| "getProp v k = Inr Undefined"

fun truthy :: "jsval \<Rightarrow> bool" where
  "truthy Undefined = False"
| "truthy Null = False"
| "truthy (Bool b) = b"
| "truthy (Num n) = (n \<noteq> 0)"
| "truthy (Str s) = (s \<noteq> [])"
| "truthy (Arr xs) = True"
| "truthy (Obj ps) = True"

subsection \<open>Strings: split, trim, toLowerCase, number to string\<close>

text \<open>
  \<^verbatim>\<open>String.prototype.split\<close> with a string separator: the pieces between the successive
  non-overlapping occurrences of the separator, found from left to right. \<open>piece\<close> is the
  piece being read, \<open>rest\<close> what is left of the string.
\<close>

function js_split_from :: "string \<Rightarrow> string \<Rightarrow> string \<Rightarrow> string list" where
  "js_split_from sep piece [] = [piece]"
| "js_split_from sep piece (c # cs) =
     (if sep \<noteq> [] \<and> prefix sep (c # cs)
      then piece # js_split_from sep [] (drop (length sep) (c # cs))
      else js_split_from sep (piece @ [c]) cs)"
  by pat_completeness auto
termination
  by (relation "measure (\<lambda>(sep, piece, rest). length rest)") auto

definition js_split :: "string \<Rightarrow> string \<Rightarrow> string list" where
  "js_split s sep = (if sep = [] then map (\<lambda>c. [c]) s else js_split_from sep [] s)"

definition is_js_whitespace :: "char \<Rightarrow> bool" where
  "is_js_whitespace c \<longleftrightarrow>
     c \<in> set [CHR 0x09, CHR 0x0A, CHR 0x0B, CHR 0x0C, CHR 0x0D, CHR 0x20, CHR 0xA0]"

definition trim :: "string \<Rightarrow> string" where
  "trim s = rev (dropWhile is_js_whitespace (rev (dropWhile is_js_whitespace s)))"

definition lower_char :: "char \<Rightarrow> char" where
  "lower_char c =
     (let n = (of_char c :: nat)
      in if (65 \<le> n \<and> n \<le> 90) \<or> (192 \<le> n \<and> n \<le> 222 \<and> n \<noteq> 215)
         then char_of (n + 32) else c)"

definition toLowerCase :: "string \<Rightarrow> string" where
  "toLowerCase s = map lower_char s"

definition digit_char :: "nat \<Rightarrow> char" where
  "digit_char n = ''0123456789'' ! (n mod 10)"

function nat_to_string :: "nat \<Rightarrow> string" where
  "nat_to_string n = (if n < 10 then [digit_char n] else nat_to_string (n div 10) @ [digit_char n])"
  by pat_completeness auto
termination
  by (relation "measure (\<lambda>n. n)") auto

text \<open>The template literal's conversion of an integral number: decimal digits, a sign.\<close>

definition number_to_string :: "int \<Rightarrow> string" where
  "number_to_string n =
     (if n < 0 then CHR ''-'' # nat_to_string (nat (- n)) else nat_to_string (nat n))"

subsection \<open>The date library: DateTime, zones, set, diff, fromFormat\<close>

text \<open>
  The program uses the date library \<^verbatim>\<open>luxon\<close>, which is not part of the repository. The
  definitions of this subsection give the behaviour of the library calls the program
  makes, for the arguments it makes them with.

  A DateTime is invalid, or an instant \<open>ts\<close> together with the zone it is shown in and
  the offset of that zone at \<open>ts\<close>.
\<close>

type_synonym zone = "int \<Rightarrow> int"

datatype DateTime = Invalid | Valid (ts: int) (offset: int) (zone: zone)

text \<open>The object \<^verbatim>\<open>{hour, minute, second, millisecond}\<close> passed to \<^verbatim>\<open>set\<close>.\<close>

record TimeFields =
  hour :: int
  minute :: int
  second :: int
  millisecond :: int

text \<open>
  \<^verbatim>\<open>DateTime.now().setZone(name)\<close> at instant \<open>t\<close>: invalid when the runtime does not
  know the zone.
\<close>

definition now_setZone :: "zone option \<Rightarrow> int \<Rightarrow> DateTime" where
  "now_setZone z t = (case z of None \<Rightarrow> Invalid | Some tz \<Rightarrow> Valid t (tz t) tz)"

text \<open>
  The library's search for the instant that shows a given local time in a zone, starting
  from the offset \<open>off\<close> that held before.
\<close>

definition fixOffset :: "int \<Rightarrow> int \<Rightarrow> zone \<Rightarrow> int \<times> int" where
  "fixOffset localTS off tz =
     (let utcGuess = localTS - off * 60 * 1000;
          o2 = tz utcGuess
      in if off = o2 then (utcGuess, off)
         else (let utcGuess' = utcGuess - (o2 - off) * 60 * 1000;
                   o3 = tz utcGuess'
               in if o2 = o3 then (utcGuess', o2)
                  else (localTS - min o2 o3 * 60 * 1000, max o2 o3)))"

text \<open>
  \<^verbatim>\<open>dt.set({hour, minute, second, millisecond})\<close> with numbers: the same local date, the
  given time of day. An invalid DateTime is returned as it is.
\<close>

definition local_ts :: "int \<Rightarrow> int \<Rightarrow> int" where
  "local_ts t off = t + off * 60 * 1000"

definition local_day_start :: "int \<Rightarrow> int \<Rightarrow> int" where
  "local_day_start t off = local_ts t off - local_ts t off mod MS_PER_DAY"

definition dt_set :: "DateTime \<Rightarrow> TimeFields \<Rightarrow> DateTime" where
  "dt_set dt f =
     (case dt of
        Invalid \<Rightarrow> Invalid
      | Valid t off tz \<Rightarrow>
          (let localTS =
                 local_day_start t off
                   + time_of_day_ms (hour f) (minute f) (second f) (millisecond f);
               (t', off') = fixOffset localTS off tz
           in Valid t' off' tz))"

text \<open>
  The getters \<^verbatim>\<open>dt.hour\<close>, \<^verbatim>\<open>dt.minute\<close>, \<^verbatim>\<open>dt.second\<close>, \<^verbatim>\<open>dt.millisecond\<close> and the
  local date (as a count of days), read off the local time; \<open>None\<close> is the NaN of an
  invalid DateTime.
\<close>

definition dt_hour :: "DateTime \<Rightarrow> int option" where
  "dt_hour dt =
     (case dt of Invalid \<Rightarrow> None
      | Valid t off tz \<Rightarrow> Some (local_ts t off mod MS_PER_DAY div 3600000))"

definition dt_minute :: "DateTime \<Rightarrow> int option" where
  "dt_minute dt =
     (case dt of Invalid \<Rightarrow> None
      | Valid t off tz \<Rightarrow> Some (local_ts t off mod 3600000 div 60000))"

definition dt_second :: "DateTime \<Rightarrow> int option" where
  "dt_second dt =
     (case dt of Invalid \<Rightarrow> None
      | Valid t off tz \<Rightarrow> Some (local_ts t off mod 60000 div 1000))"

definition dt_millisecond :: "DateTime \<Rightarrow> int option" where
  "dt_millisecond dt =
     (case dt of Invalid \<Rightarrow> None
      | Valid t off tz \<Rightarrow> Some (local_ts t off mod 1000))"

definition dt_local_day :: "DateTime \<Rightarrow> int option" where
  "dt_local_day dt =
     (case dt of Invalid \<Rightarrow> None
      | Valid t off tz \<Rightarrow> Some (local_ts t off div MS_PER_DAY))"

text \<open>
  The same call when the values are read from another DateTime \<open>src\<close>, whose fields are
  NaN when \<open>src\<close> is invalid (\<open>None\<close>): an invalid receiver is returned first, then a NaN
  value throws an InvalidArgumentError.
\<close>

definition dt_set_from :: "DateTime \<Rightarrow> TimeFields option \<Rightarrow> error + DateTime" where
  "dt_set_from dt src =
     (case dt of
        Invalid \<Rightarrow> Inr Invalid
      | Valid t off tz \<Rightarrow>
          (case src of
             None \<Rightarrow> Inl InvalidArgumentError
           | Some f \<Rightarrow> Inr (dt_set dt f)))"

text \<open>
  \<^verbatim>\<open>dt.diffNow().toObject().milliseconds\<close>, with the clock read at \<open>now\<close>: the difference
  of the instants; the duration of an invalid DateTime is invalid and has no fields.
\<close>

definition diffNow_milliseconds :: "DateTime \<Rightarrow> int \<Rightarrow> int option" where
  "diffNow_milliseconds dt now =
     (case dt of Invalid \<Rightarrow> None | Valid t off tz \<Rightarrow> Some (t - now))"

text \<open>
  \<^verbatim>\<open>dt.diffNow('days').toObject().days\<close>: whole days and the fraction of the last one. Both
  DateTimes are in the system zone, whose days all have \<open>MS_PER_DAY\<close> ms.
\<close>

definition diffNow_days :: "DateTime \<Rightarrow> int \<Rightarrow> rat option" where
  "diffNow_days dt now =
     (case dt of Invalid \<Rightarrow> None | Valid t off tz \<Rightarrow> Some (of_int (t - now) / of_int MS_PER_DAY))"

text \<open>
  \<^verbatim>\<open>dt.weekdayLong\<close> in the locale \<^verbatim>\<open>en-US\<close>: the name of the weekday of the local date,
  \<^verbatim>\<open>null\<close> for an invalid DateTime. Day 0 of the epoch was a Thursday.
\<close>

definition weekday_names :: "string list" where
  "weekday_names =
     [''Monday'', ''Tuesday'', ''Wednesday'', ''Thursday'', ''Friday'', ''Saturday'', ''Sunday'']"

definition weekdayLong :: "DateTime \<Rightarrow> string option" where
  "weekdayLong dt =
     (case dt of
        Invalid \<Rightarrow> None
      | Valid t off tz \<Rightarrow> Some (weekday_names ! nat ((local_ts t off div MS_PER_DAY + 3) mod 7)))"

text \<open>
  \<^verbatim>\<open>DateTime.fromFormat(text, fmt)\<close> for the two formats the program uses. The token
  \<^verbatim>\<open>h\<close> is one or two decimal digits, \<^verbatim>\<open>a\<close> is the meridiem \<^verbatim>\<open>AM\<close> or \<^verbatim>\<open>PM\<close> in any
  letter case, the blank of \<^verbatim>\<open>h a\<close> is one space, and the whole text must match. An
  hour below 12 with PM is moved to the afternoon, 12 with AM is midnight. The
  result is valid when the hour is at most 23, or 24 (midnight of the next day, whose
  hour reads 0); minute, second and millisecond are 0. The result is the time of day of
  the DateTime (\<open>None\<close> when it is invalid), the only part the program reads.
\<close>

definition is_digit :: "char \<Rightarrow> bool" where
  "is_digit c \<longleftrightarrow> c \<in> set ''0123456789''"

definition digit_val :: "char \<Rightarrow> int" where
  "digit_val c = int (of_char c) - 48"

definition parse_digits :: "string \<Rightarrow> int" where
  "parse_digits ds = foldl (\<lambda>n c. 10 * n + digit_val c) 0 ds"

fun meridiem :: "string \<Rightarrow> nat option" where
  "meridiem [x, y] =
     (if (x = CHR ''a'' \<or> x = CHR ''A'') \<and> (y = CHR ''m'' \<or> y = CHR ''M'') then Some 0
      else if (x = CHR ''p'' \<or> x = CHR ''P'') \<and> (y = CHR ''m'' \<or> y = CHR ''M'') then Some 1
      else None)"
| "meridiem s = None"

definition hour_of_12 :: "int \<Rightarrow> nat \<Rightarrow> int" where
  "hour_of_12 h a = (if h < 12 \<and> a = 1 then h + 12 else if h = 12 \<and> a = 0 then 0 else h)"

definition time_of_hour :: "int \<Rightarrow> TimeFields option" where
  "time_of_hour h =
     (if 0 \<le> h \<and> h \<le> 23 then Some \<lparr>hour = h, minute = 0, second = 0, millisecond = 0\<rparr>
      else if h = 24 then Some \<lparr>hour = 0, minute = 0, second = 0, millisecond = 0\<rparr>
      else None)"

definition fromFormat :: "string \<Rightarrow> string \<Rightarrow> TimeFields option" where
  "fromFormat text fmt =
     (let ds = takeWhile is_digit text;
          rest = dropWhile is_digit text;
          blank = (if fmt = ''h a'' then '' '' else [])
      in if (fmt = ''ha'' \<or> fmt = ''h a'') \<and> (length ds = 1 \<or> length ds = 2) \<and> prefix blank rest
         then (case meridiem (drop (length blank) rest) of
                 None \<Rightarrow> None
               | Some a \<Rightarrow> time_of_hour (hour_of_12 (parse_digits ds) a))
         else None)"

subsection \<open>The functions of the worker\<close>

text \<open>
  \<^verbatim>\<open>OPENING_DATE = DateTime.fromISO("2024-06-22T10:00:00.000-07:00")\<close>: the instant that
  reads 10:00 at the offset of -7 hours, shown in the system zone.
\<close>

definition OPENING_DATE :: DateTime where
  "OPENING_DATE = Valid (Date_UTC 2024 6 22 10 0 0 0 - (- 7 * 60) * 60 * 1000) 0 (\<lambda>t. 0)"

definition getTodayPT :: "zone option \<Rightarrow> int \<Rightarrow> DateTime" where
  "getTodayPT z t = now_setZone z t"

text \<open>\<open>t1\<close> is the clock at \<^verbatim>\<open>getTodayPT()\<close>, \<open>t2\<close> at \<^verbatim>\<open>diffNow()\<close>.\<close>

definition getFallbackTimeout :: "zone option \<Rightarrow> int \<Rightarrow> int \<Rightarrow> int" where
  "getFallbackTimeout z t1 t2 =
     (let openingTime =
            dt_set (getTodayPT z t1)
              \<lparr>hour = FALLBACK_HOUR, minute = 0, second = 0, millisecond = 0\<rparr>
      in case diffNow_milliseconds openingTime t2 of
           Some ms \<Rightarrow> ms
         | None \<Rightarrow> FALLBACK_TIMEOUT)"

definition getFallbackDaysOpen :: "int \<Rightarrow> int" where
  "getFallbackDaysOpen now =
     \<lceil>- (case diffNow_days OPENING_DATE now of Some d \<Rightarrow> d | None \<Rightarrow> 0)\<rceil> + 1"

definition getMessage :: "int \<Rightarrow> string" where
  "getMessage dayNumber = ''Round1 Plaza Bonita Day '' @ number_to_string dayNumber @ '': START''"

definition getCurrentDayOfWeekPT :: "zone option \<Rightarrow> int \<Rightarrow> error + string" where
  "getCurrentDayOfWeekPT z t =
     (case weekdayLong (getTodayPT z t) of
        Some name \<Rightarrow> Inr (toLowerCase name)
      | None \<Rightarrow> Inl Error)"

text \<open>
  \<^verbatim>\<open>getOpeningTime\<close>, in the steps of the source: the local \<^verbatim>\<open>times\<close> after the two
  splits, the local \<^verbatim>\<open>opening\<close> (\<^verbatim>\<open>times[0].trim()\<close>, a TypeError if there were no first
  element), the two parses and the \<^verbatim>\<open>set\<close> on today's date. \<open>hours\<close> is whatever the
  hours map held: calling \<^verbatim>\<open>split\<close> on anything but a string throws a TypeError.
\<close>

definition getOpeningTime_times :: "string \<Rightarrow> string list" where
  "getOpeningTime_times hours =
     (let times = js_split hours ''-''
      in if length times \<noteq> 2 then js_split hours ''to'' else times)"

definition getOpeningTime_opening :: "string \<Rightarrow> error + string" where
  "getOpeningTime_opening hours =
     (case getOpeningTime_times hours of
        [] \<Rightarrow> Inl TypeError
      | first # others \<Rightarrow> Inr (trim first))"

definition getOpeningTime_parsed :: "string \<Rightarrow> TimeFields option" where
  "getOpeningTime_parsed opening =
     (let openingTime = fromFormat opening ''ha''
      in if openingTime = None then fromFormat opening ''h a'' else openingTime)"

definition getOpeningTime :: "zone option \<Rightarrow> jsval \<Rightarrow> int \<Rightarrow> error + DateTime" where
  "getOpeningTime z hours t =
     (case hours of
        Str s \<Rightarrow>
          (case getOpeningTime_opening s of
             Inl e \<Rightarrow> Inl e
           | Inr opening \<Rightarrow> dt_set_from (getTodayPT z t) (getOpeningTime_parsed opening))
      | _ \<Rightarrow> Inl TypeError)"

text \<open>
  The outcome of \<^verbatim>\<open>fetch(url)\<close> followed by \<^verbatim>\<open>resp.json()\<close>: the request is rejected, or
  there is a response with its \<^verbatim>\<open>ok\<close> flag and a body, \<open>None\<close> when the body is not JSON.
\<close>

datatype fetch_result = Rejected | Response (ok: bool) (body: "jsval option")

definition getBusinessHours_try :: "fetch_result \<Rightarrow> error + jsval" where
  "getBusinessHours_try r =
     (case r of
        Rejected \<Rightarrow> Inl NetworkError
      | Response isOk parsed \<Rightarrow>
          (case parsed of
             None \<Rightarrow> Inl SyntaxError
           | Some data \<Rightarrow>
               if \<not> isOk then Inl Error
               else (case getProp data ''success'' of
                       Inl e \<Rightarrow> Inl e
                     | Inr success \<Rightarrow> if \<not> truthy success then Inl Error else Inr data)))"

definition getBusinessHours :: "fetch_result \<Rightarrow> jsval option" where
  "getBusinessHours r = (case getBusinessHours_try r of Inl err \<Rightarrow> None | Inr data \<Rightarrow> Some data)"

text \<open>
  \<open>t1\<close> is the clock at \<^verbatim>\<open>getCurrentDayOfWeekPT()\<close>, \<open>t2\<close> at the \<^verbatim>\<open>getTodayPT()\<close> of
  \<^verbatim>\<open>getOpeningTime\<close>, \<open>t3\<close> at \<^verbatim>\<open>diffNow()\<close>.
\<close>

definition getTimeout_try :: "zone option \<Rightarrow> jsval \<Rightarrow> int \<Rightarrow> int \<Rightarrow> int \<Rightarrow> error + int option" where
  "getTimeout_try z data t1 t2 t3 =
     (case getProp data ''results'' of
        Inl e \<Rightarrow> Inl e
      | Inr results \<Rightarrow>
          (case getProp results ''location'' of
             Inl e \<Rightarrow> Inl e
           | Inr location \<Rightarrow>
               (case getCurrentDayOfWeekPT z t1 of
                  Inl e \<Rightarrow> Inl e
                | Inr day \<Rightarrow>
                    (case getProp location day of
                       Inl e \<Rightarrow> Inl e
                     | Inr hours \<Rightarrow>
                         (case getOpeningTime z hours t2 of
                            Inl e \<Rightarrow> Inl e
                          | Inr openingTime \<Rightarrow> Inr (diffNow_milliseconds openingTime t3))))))"

definition getTimeout :: "zone option \<Rightarrow> jsval \<Rightarrow> int \<Rightarrow> int \<Rightarrow> int \<Rightarrow> int option" where
  "getTimeout z data t1 t2 t3 =
     (case getTimeout_try z data t1 t2 t3 of Inl err \<Rightarrow> None | Inr ms \<Rightarrow> ms)"

subsection \<open>The scheduled job\<close>

text \<open>
  What the world does during one run: the answer of the hours API, the zone table, the
  clock (\<open>clock k\<close> is what the \<open>k\<close>-th call of \<^verbatim>\<open>DateTime.now()\<close> reads, counted from 0),
  the database read (it throws, or yields \<^verbatim>\<open>null\<close> as \<open>None\<close>, or the stored number),
  the webhook request (it throws, or a response with some status comes back) and the
  database update.
\<close>

record World =
  hoursFetch :: fetch_result
  zonePT :: "zone option"
  clock :: "nat \<Rightarrow> int"
  dbFirst :: "error + int option"
  webhookFetch :: "error + nat"
  dbRun :: "error + unit"

text \<open>
  The calls the job makes to its collaborators, in order; a call is recorded when it is
  made, also when it then throws. \<open>UpdateDaysOpen v s\<close> binds the value \<open>v\<close> and the
  store \<open>s\<close>.
\<close>

datatype event =
    SelectDaysOpen int
  | Sleep int
  | PostMessage string
  | UpdateDaysOpen int int

datatype outcome = DONE | SKIPPED | Thrown error

text \<open>
  The locals \<^verbatim>\<open>timeout\<close> and \<^verbatim>\<open>day\<close> of the job. The clock has been read three times
  when \<^verbatim>\<open>getTimeout\<close> has returned a number, twice after \<^verbatim>\<open>getFallbackTimeout\<close>; the
  next reading is the one of \<^verbatim>\<open>getFallbackDaysOpen\<close>, which runs only when the database
  holds no value (\<open>row = None\<close>).
\<close>

definition scheduled_timeout :: "World \<Rightarrow> int option" where
  "scheduled_timeout w =
     (case getBusinessHours (hoursFetch w) of
        Some data \<Rightarrow> getTimeout (zonePT w) data (clock w 0) (clock w 1) (clock w 2)
      | None \<Rightarrow> Some (getFallbackTimeout (zonePT w) (clock w 0) (clock w 1)))"

definition scheduled_day :: "World \<Rightarrow> int option \<Rightarrow> int" where
  "scheduled_day w row =
     (case row of
        Some d \<Rightarrow> d
      | None \<Rightarrow>
          getFallbackDaysOpen
            (case getBusinessHours (hoursFetch w) of
               Some data \<Rightarrow> clock w 3
             | None \<Rightarrow> clock w 2))"

definition scheduled :: "World \<Rightarrow> outcome \<times> event list" where
  "scheduled w =
     (case scheduled_timeout w of
        None \<Rightarrow> (SKIPPED, [])
      | Some timeout \<Rightarrow>
          (case dbFirst w of
             Inl e \<Rightarrow> (Thrown e, [SelectDaysOpen PLAZA_BONITA_ID])
           | Inr row \<Rightarrow>
               (let day = scheduled_day w row;
                    message = getMessage day;
                    sent = [SelectDaysOpen PLAZA_BONITA_ID, Sleep timeout, PostMessage message];
                    updated = sent @ [UpdateDaysOpen (day + 1) PLAZA_BONITA_ID]
                in case webhookFetch w of
                     Inl e \<Rightarrow> (Thrown e, sent)
                   | Inr status \<Rightarrow>
                       (case dbRun w of
                          Inl e \<Rightarrow> (Thrown e, updated)
                        | Inr u \<Rightarrow> (DONE, updated)))))"

subsection \<open>The specification's wording, and concrete runs\<close>

text \<open>
  The parser's first step as the specification words it: the split on \<^verbatim>\<open>-\<close> is kept
  when it yields exactly two non-empty parts, otherwise the split on \<^verbatim>\<open>to\<close> is taken.
\<close>

definition spec_times :: "string \<Rightarrow> string list" where
  "spec_times hours =
     (let parts = js_split hours ''-''
      in if length parts = 2 \<and> [] \<notin> set parts then parts else js_split hours ''to'')"

definition spec_opening :: "string \<Rightarrow> error + string" where
  "spec_opening hours =
     (case spec_times hours of
        [] \<Rightarrow> Inl TypeError
      | first # others \<Rightarrow> Inr (trim first))"

text \<open>
  The success flag as the program reads it: the truthiness of \<^verbatim>\<open>data.success\<close>. A body
  whose flag cannot be read (\<^verbatim>\<open>null\<close>) is not flagged.
\<close>

definition success_flag :: "jsval \<Rightarrow> bool" where
  "success_flag data = (case getProp data ''success'' of Inl e \<Rightarrow> False | Inr v \<Rightarrow> truthy v)"

text \<open>
  The payload contract of the specification: an object with a boolean \<^verbatim>\<open>success\<close> and
  with \<^verbatim>\<open>results\<close>, an object whose \<^verbatim>\<open>location\<close> is the hours map, an object from weekdays
  to hours texts. \<open>has_hours_map\<close> is the part about \<^verbatim>\<open>results\<close>.
\<close>

definition has_hours_map :: "jsval \<Rightarrow> bool" where
  "has_hours_map data =
     (case getProp data ''results'' of
        Inr (Obj rs) \<Rightarrow> (case map_of rs ''location'' of Some (Obj ls) \<Rightarrow> True | _ \<Rightarrow> False)
      | _ \<Rightarrow> False)"

definition payload_well_formed :: "jsval \<Rightarrow> bool" where
  "payload_well_formed data =
     (case getProp data ''success'' of
        Inr (Bool b) \<Rightarrow> has_hours_map data
      | _ \<Rightarrow> False)"

text \<open>
  The failures of the hours fetch as the specification lists them: a network error, a
  status that is not 2xx, a malformed payload (a body that is not JSON, or one that does
  not have the shape of the contract), and a success flag that is false.
\<close>

definition fetch_failed :: "fetch_result \<Rightarrow> bool" where
  "fetch_failed r =
     (case r of
        Rejected \<Rightarrow> True
      | Response isOk parsed \<Rightarrow>
          (if isOk
           then (case parsed of
                   None \<Rightarrow> True
                 | Some data \<Rightarrow>
                     (if payload_well_formed data then getProp data ''success'' = Inr (Bool False)
                      else True))
           else True))"

text \<open>
  A zone that stays at the summer offset of the Pacific zone (7 hours behind UTC), a clock
  that reads the same instant at every call, and the answer of the hours API with one
  weekday and its hours text.
\<close>

definition zone_PDT :: zone where
  "zone_PDT t = - 420"

definition clock_at :: "int \<Rightarrow> nat \<Rightarrow> int" where
  "clock_at t k = t"

definition hours_body :: "string \<Rightarrow> jsval \<Rightarrow> jsval" where
  "hours_body day hours =
     Obj [(''success'', Bool True),
          (''results'', Obj [(''location'', Obj [(day, hours)])])]"

text \<open>
  A run on Monday 2024-07-01 at the local time \<open>h:mi\<close> of that zone, with the hours
  text \<open>hours\<close> for the weekday \<open>day\<close>, the counter \<open>row\<close> in the database, and a
  webhook and a database that answer.
\<close>

definition monday_run :: "int \<Rightarrow> int \<Rightarrow> string \<Rightarrow> jsval \<Rightarrow> int option \<Rightarrow> World" where
  "monday_run h mi day hours row =
     \<lparr>hoursFetch = Response True (Some (hours_body day hours)),
      zonePT = Some zone_PDT,
      clock = clock_at (Date_UTC 2024 7 1 h mi 0 0 + 420 * 60 * 1000),
      dbFirst = Inr row,
      webhookFetch = Inr 204,
      dbRun = Inr ()\<rparr>"

section \<open>Properties\<close>

subsection \<open>Splitting the hours text\<close>

lemma length_js_split_from_char:
  "length (js_split_from [c] piece rest) = count_list rest c + 1"
  by (induction rest arbitrary: piece) auto

lemma hd_js_split_from_char:
  "hd (js_split_from [c] piece rest) = piece @ takeWhile (\<lambda>x. x \<noteq> c) rest"
  by (induction rest arbitrary: piece) auto

lemma js_split_from_nonempty: "js_split_from sep piece rest \<noteq> []"
  by (induction sep piece rest rule: js_split_from.induct) auto

lemma length_js_split_dash:
  "length (js_split hours ''-'') = count_list hours CHR ''-'' + 1"
  by (simp add: js_split_def length_js_split_from_char)

lemma getOpeningTime_times_nonempty: "getOpeningTime_times hours \<noteq> []"
  by (simp add: getOpeningTime_times_def js_split_def js_split_from_nonempty Let_def)

text \<open>
  Claim C4, as amended. The parser splits the hours text on \<^verbatim>\<open>-\<close> and takes the split on
  \<^verbatim>\<open>to\<close> instead exactly when the first split does not have exactly two parts, which is
  when the text does not hold exactly one \<^verbatim>\<open>-\<close>; whether a part is empty plays no role.
  There is always a first part, and the opening token is that part trimmed; with exactly
  one \<^verbatim>\<open>-\<close> it is the trimmed text before the \<^verbatim>\<open>-\<close>.
\<close>

theorem opening_token_split_rule:
  "getOpeningTime_times hours =
     (if count_list hours CHR ''-'' = 1 then js_split hours ''-'' else js_split hours ''to'')
   \<and> (length (js_split hours ''-'') = 2 \<longleftrightarrow> count_list hours CHR ''-'' = 1)
   \<and> getOpeningTime_opening hours = Inr (trim (hd (getOpeningTime_times hours)))
   \<and> (count_list hours CHR ''-'' = 1 \<longrightarrow>
        getOpeningTime_opening hours = Inr (trim (takeWhile (\<lambda>c. c \<noteq> CHR ''-'') hours)))"
proof -
  have len: "length (js_split hours ''-'') = 2 \<longleftrightarrow> count_list hours CHR ''-'' = 1"
    by (simp add: length_js_split_dash)
  have times: "getOpeningTime_times hours =
     (if count_list hours CHR ''-'' = 1 then js_split hours ''-'' else js_split hours ''to'')"
    by (simp add: getOpeningTime_times_def Let_def len)
  have first_part: "getOpeningTime_opening hours = Inr (trim (hd (getOpeningTime_times hours)))"
    using getOpeningTime_times_nonempty[of hours]
    by (cases "getOpeningTime_times hours") (simp_all add: getOpeningTime_opening_def)
  have dash: "getOpeningTime_opening hours = Inr (trim (takeWhile (\<lambda>c. c \<noteq> CHR ''-'') hours))"
    if "count_list hours CHR ''-'' = 1"
    using that hd_js_split_from_char[of "CHR ''-''" "[]" hours]
    by (simp add: first_part times js_split_def)
  show ?thesis using len times first_part dash by blast
qed

text \<open>
  The text \<^verbatim>\<open>10am-2am\<close> holds one \<^verbatim>\<open>-\<close>: the opening token is \<^verbatim>\<open>10am\<close>.
\<close>

theorem opening_token_split_rule_witness:
  "count_list ''10am-2am'' CHR ''-'' = 1 \<and> getOpeningTime_opening ''10am-2am'' = Inr ''10am''"
proof -
  have one_dash: "count_list ''10am-2am'' CHR ''-'' = 1" by simp
  have trimmed: "trim (takeWhile (\<lambda>c. c \<noteq> CHR ''-'') ''10am-2am'') = ''10am''"
    by (simp add: trim_def is_js_whitespace_def)
  from opening_token_split_rule[of "''10am-2am''"] one_dash
  have "getOpeningTime_opening ''10am-2am''
        = Inr (trim (takeWhile (\<lambda>c. c \<noteq> CHR ''-'') ''10am-2am''))"
    by blast
  with one_dash trimmed show ?thesis by simp
qed

text \<open>
  Claim C4 as the specification states it fails: the text \<^verbatim>\<open>10am to 2am-\<close> splits on \<^verbatim>\<open>-\<close>
  into two parts of which the second is empty. The program keeps that split and reads the
  token \<^verbatim>\<open>10am to 2am\<close>; splitting on \<^verbatim>\<open>to\<close>, as the specification asks when a part is
  empty, would give the token \<^verbatim>\<open>10am\<close>.
\<close>

theorem empty_part_keeps_dash_split:
  "getOpeningTime_times ''10am to 2am-'' = [''10am to 2am'', []]
   \<and> spec_times ''10am to 2am-'' = [''10am '', '' 2am-'']
   \<and> getOpeningTime_opening ''10am to 2am-'' = Inr ''10am to 2am''
   \<and> spec_opening ''10am to 2am-'' = Inr ''10am''"
  by (simp add: getOpeningTime_times_def spec_times_def getOpeningTime_opening_def
      spec_opening_def js_split_def trim_def is_js_whitespace_def)

subsection \<open>The day number\<close>

lemma OPENING_DATE_eq: "OPENING_DATE = Valid 1719075600000 0 (\<lambda>t. 0)"
  by (simp add: OPENING_DATE_def Date_UTC_def days_from_civil_def time_of_day_ms_def MS_PER_DAY_def)

lemma neg_div_int:
  fixes x d :: int
  assumes "0 < d"
  shows "(- x) div d = - ((x - 1) div d + 1)"
proof (rule int_div_pos_eq)
  let ?q = "(x - 1) div d" and ?r = "(x - 1) mod d"
  have x: "x - 1 = d * ?q + ?r" by simp
  show "- x = d * - (?q + 1) + (d - ?r - 1)"
    using x by (simp add: algebra_simps)
  show "0 \<le> d - ?r - 1" using assms pos_mod_bound[of d "x - 1"] by linarith
  show "d - ?r - 1 < d" using assms pos_mod_sign[of d "x - 1"] by linarith
qed

lemma ceiling_div_int:
  fixes x d :: int
  assumes "0 < d"
  shows "\<lceil>(of_int x :: rat) / of_int d\<rceil> = (x - 1) div d + 1"
proof -
  have "\<lceil>(of_int x :: rat) / of_int d\<rceil> = - ((- x) div d)"
    by (simp add: ceiling_divide_eq_div)
  then show ?thesis using neg_div_int[OF assms, of x] by simp
qed

lemma getFallbackDaysOpen_ceiling:
  "getFallbackDaysOpen now
   = \<lceil>(of_int (now - ts OPENING_DATE) :: rat) / of_int MS_PER_DAY\<rceil> + 1"
proof -
  have neg: "- ((of_int (1719075600000 - now) :: rat) / of_int 86400000)
             = of_int (now - 1719075600000) / of_int 86400000"
    by (simp add: field_simps)
  have "getFallbackDaysOpen now
        = \<lceil>- ((of_int (1719075600000 - now) :: rat) / of_int 86400000)\<rceil> + 1"
    unfolding getFallbackDaysOpen_def diffNow_days_def MS_PER_DAY_def OPENING_DATE_eq
    by simp
  also have "\<dots> = \<lceil>(of_int (now - 1719075600000) :: rat) / of_int 86400000\<rceil> + 1"
    by (simp only: neg)
  finally show ?thesis
    unfolding OPENING_DATE_eq MS_PER_DAY_def by simp
qed

lemma getFallbackDaysOpen_closed:
  "getFallbackDaysOpen now = (now - 1719075600001) div 86400000 + 2"
proof -
  have "getFallbackDaysOpen now
        = \<lceil>(of_int (now - 1719075600000) :: rat) / of_int 86400000\<rceil> + 1"
    unfolding getFallbackDaysOpen_ceiling OPENING_DATE_eq MS_PER_DAY_def by simp
  also have "\<dots> = ((now - 1719075600000) - 1) div 86400000 + 1 + 1"
    by (subst ceiling_div_int) simp_all
  finally show ?thesis by simp
qed

lemma getFallbackDaysOpen_local_day:
  "getFallbackDaysOpen now =
     local_ts now (- 420) div MS_PER_DAY - 19896
       + (if local_ts now (- 420) mod MS_PER_DAY \<le> 36000000 then 1 else 2)"
proof -
  define q where "q = (now - 25200000) div 86400000"
  define r where "r = (now - 25200000) mod 86400000"
  have r: "0 \<le> r" "r < 86400000" by (simp_all add: r_def)
  have now: "now = 86400000 * q + r + 25200000"
    unfolding q_def r_def by simp
  have "(now - 1719075600001) div 86400000 = q - 19896 + (if r \<le> 36000000 then - 1 else 0)"
  proof (cases "r \<le> 36000000")
    case True
    have "(now - 1719075600001) div 86400000 = q - 19897"
      by (rule int_div_pos_eq[where r = "r + 50399999"]) (use r True now in simp_all)
    then show ?thesis using True by simp
  next
    case False
    have "(now - 1719075600001) div 86400000 = q - 19896"
      by (rule int_div_pos_eq[where r = "r - 36000001"]) (use r False now in simp_all)
    then show ?thesis using False by simp
  qed
  then show ?thesis
    by (simp add: getFallbackDaysOpen_closed local_ts_def MS_PER_DAY_def q_def r_def)
qed

lemma opening_local_day: "local_ts (ts OPENING_DATE) (- 420) div MS_PER_DAY = 19896"
  by (simp add: OPENING_DATE_eq local_ts_def MS_PER_DAY_def)

text \<open>
  Claim C6, as amended. When the database holds no counter, the day number is the
  fallback \<^verbatim>\<open>getFallbackDaysOpen\<close>, which is the ceiling of the days elapsed since the
  opening instant (2024-06-22 10:00 at -07:00), plus one. Exactly five days after that
  instant it is 6, at the instant itself it is 1. On the calendar day of the opening
  (taken at -07:00) it is 1 up to and including 10:00:00.000 and 2 afterwards.
\<close>

theorem fallback_day_number:
  "scheduled_day w None
     = getFallbackDaysOpen
         (case getBusinessHours (hoursFetch w) of Some data \<Rightarrow> clock w 3 | None \<Rightarrow> clock w 2)
   \<and> getFallbackDaysOpen now
       = \<lceil>(of_int (now - ts OPENING_DATE) :: rat) / of_int MS_PER_DAY\<rceil> + 1
   \<and> getFallbackDaysOpen (ts OPENING_DATE + 5 * MS_PER_DAY) = 6
   \<and> getFallbackDaysOpen (ts OPENING_DATE) = 1
   \<and> (local_ts now (- 420) div MS_PER_DAY = local_ts (ts OPENING_DATE) (- 420) div MS_PER_DAY
        \<longrightarrow> getFallbackDaysOpen now
             = (if local_ts now (- 420) mod MS_PER_DAY \<le> time_of_day_ms 10 0 0 0 then 1 else 2))"
proof -
  have a: "scheduled_day w None
     = getFallbackDaysOpen
         (case getBusinessHours (hoursFetch w) of Some data \<Rightarrow> clock w 3 | None \<Rightarrow> clock w 2)"
    by (simp add: scheduled_day_def)
  have c: "getFallbackDaysOpen (ts OPENING_DATE + 5 * MS_PER_DAY) = 6"
    by (simp add: getFallbackDaysOpen_closed OPENING_DATE_eq MS_PER_DAY_def)
  have d: "getFallbackDaysOpen (ts OPENING_DATE) = 1"
    by (simp add: getFallbackDaysOpen_closed OPENING_DATE_eq)
  have e: "getFallbackDaysOpen now
             = (if local_ts now (- 420) mod MS_PER_DAY \<le> time_of_day_ms 10 0 0 0 then 1 else 2)"
    if "local_ts now (- 420) div MS_PER_DAY = local_ts (ts OPENING_DATE) (- 420) div MS_PER_DAY"
    using that by (simp add: getFallbackDaysOpen_local_day opening_local_day time_of_day_ms_def)
  show ?thesis using a getFallbackDaysOpen_ceiling[of now] c d e by blast
qed

text \<open>
  The instant of the daily run on the opening day, 16:57 UTC, lies on that day before
  10:00 local: the day number is 1.
\<close>

theorem fallback_day_number_witness:
  "local_ts (Date_UTC 2024 6 22 16 57 0 0) (- 420) div MS_PER_DAY
     = local_ts (ts OPENING_DATE) (- 420) div MS_PER_DAY
   \<and> getFallbackDaysOpen (Date_UTC 2024 6 22 16 57 0 0) = 1"
proof -
  have day: "local_ts (Date_UTC 2024 6 22 16 57 0 0) (- 420) div MS_PER_DAY
     = local_ts (ts OPENING_DATE) (- 420) div MS_PER_DAY"
    by (simp add: OPENING_DATE_eq local_ts_def MS_PER_DAY_def Date_UTC_def days_from_civil_def
        time_of_day_ms_def)
  have early: "local_ts (Date_UTC 2024 6 22 16 57 0 0) (- 420) mod MS_PER_DAY
               \<le> time_of_day_ms 10 0 0 0"
    by (simp add: local_ts_def MS_PER_DAY_def Date_UTC_def days_from_civil_def time_of_day_ms_def)
  from fallback_day_number[of _ "Date_UTC 2024 6 22 16 57 0 0"] day
  have "getFallbackDaysOpen (Date_UTC 2024 6 22 16 57 0 0)
        = (if local_ts (Date_UTC 2024 6 22 16 57 0 0) (- 420) mod MS_PER_DAY
              \<le> time_of_day_ms 10 0 0 0 then 1 else 2)"
    by blast
  with day early show ?thesis by simp
qed

text \<open>
  Claim C6 as the specification states it fails: 2024-06-22 12:00 at -07:00 (19:00 UTC) is
  on the opening day, and the fallback day number there is 2, not 1.
\<close>

theorem epoch_day_afternoon_is_day_two:
  "local_ts (Date_UTC 2024 6 22 19 0 0 0) (- 420) div MS_PER_DAY
     = local_ts (ts OPENING_DATE) (- 420) div MS_PER_DAY
   \<and> getFallbackDaysOpen (Date_UTC 2024 6 22 19 0 0 0) = 2"
  by (simp add: getFallbackDaysOpen_closed OPENING_DATE_eq local_ts_def MS_PER_DAY_def
      Date_UTC_def days_from_civil_def time_of_day_ms_def)

text \<open>
  Claim C7, as amended. The fallback day number depends on the instant, not on the date
  alone: two instants get the same number exactly when they lie in the same 24-hour
  window that ends at 10:00 (-07:00), the time of day of the opening instant. Two instants
  of one calendar day (taken at -07:00) get the same number exactly when both are at or
  before 10:00:00.000 or both after it.
\<close>

theorem fallback_day_number_same_window:
  "(getFallbackDaysOpen a = getFallbackDaysOpen b
      \<longleftrightarrow> (a - ts OPENING_DATE - 1) div MS_PER_DAY = (b - ts OPENING_DATE - 1) div MS_PER_DAY)
   \<and> (local_ts a (- 420) div MS_PER_DAY = local_ts b (- 420) div MS_PER_DAY \<longrightarrow>
        (getFallbackDaysOpen a = getFallbackDaysOpen b
           \<longleftrightarrow> (local_ts a (- 420) mod MS_PER_DAY \<le> time_of_day_ms 10 0 0 0
                \<longleftrightarrow> local_ts b (- 420) mod MS_PER_DAY \<le> time_of_day_ms 10 0 0 0)))"
proof -
  have w: "getFallbackDaysOpen a = getFallbackDaysOpen b
      \<longleftrightarrow> (a - ts OPENING_DATE - 1) div MS_PER_DAY = (b - ts OPENING_DATE - 1) div MS_PER_DAY"
    by (simp add: getFallbackDaysOpen_closed OPENING_DATE_eq MS_PER_DAY_def)
  have d: "getFallbackDaysOpen a = getFallbackDaysOpen b
           \<longleftrightarrow> (local_ts a (- 420) mod MS_PER_DAY \<le> time_of_day_ms 10 0 0 0
                \<longleftrightarrow> local_ts b (- 420) mod MS_PER_DAY \<le> time_of_day_ms 10 0 0 0)"
    if "local_ts a (- 420) div MS_PER_DAY = local_ts b (- 420) div MS_PER_DAY"
    using that by (simp add: getFallbackDaysOpen_local_day time_of_day_ms_def)
  show ?thesis using w d by blast
qed

text \<open>
  08:00 and 09:57 local on 2024-06-27 (15:00 and 16:57 UTC) are on one day and both before
  10:00: the same day number.
\<close>

theorem fallback_day_number_same_window_witness:
  "local_ts (Date_UTC 2024 6 27 15 0 0 0) (- 420) div MS_PER_DAY
     = local_ts (Date_UTC 2024 6 27 16 57 0 0) (- 420) div MS_PER_DAY
   \<and> getFallbackDaysOpen (Date_UTC 2024 6 27 15 0 0 0)
     = getFallbackDaysOpen (Date_UTC 2024 6 27 16 57 0 0)"
proof -
  have day: "local_ts (Date_UTC 2024 6 27 15 0 0 0) (- 420) div MS_PER_DAY
     = local_ts (Date_UTC 2024 6 27 16 57 0 0) (- 420) div MS_PER_DAY"
    by (simp add: local_ts_def MS_PER_DAY_def Date_UTC_def days_from_civil_def time_of_day_ms_def)
  have side: "local_ts (Date_UTC 2024 6 27 15 0 0 0) (- 420) mod MS_PER_DAY \<le> time_of_day_ms 10 0 0 0
     \<longleftrightarrow> local_ts (Date_UTC 2024 6 27 16 57 0 0) (- 420) mod MS_PER_DAY \<le> time_of_day_ms 10 0 0 0"
    by (simp add: local_ts_def MS_PER_DAY_def Date_UTC_def days_from_civil_def time_of_day_ms_def)
  from fallback_day_number_same_window[of "Date_UTC 2024 6 27 15 0 0 0" "Date_UTC 2024 6 27 16 57 0 0"]
    day side
  have "getFallbackDaysOpen (Date_UTC 2024 6 27 15 0 0 0)
     = getFallbackDaysOpen (Date_UTC 2024 6 27 16 57 0 0)"
    by blast
  with day show ?thesis by simp
qed

text \<open>
  Claim C7 as the specification states it fails: 09:00 and 11:00 at -07:00 on 2024-06-27
  (16:00 and 18:00 UTC) are two moments of the same calendar day, with the day numbers 6
  and 7.
\<close>

theorem same_day_two_day_numbers:
  "local_ts (Date_UTC 2024 6 27 16 0 0 0) (- 420) div MS_PER_DAY
     = local_ts (Date_UTC 2024 6 27 18 0 0 0) (- 420) div MS_PER_DAY
   \<and> getFallbackDaysOpen (Date_UTC 2024 6 27 16 0 0 0) = 6
   \<and> getFallbackDaysOpen (Date_UTC 2024 6 27 18 0 0 0) = 7"
  by (simp add: getFallbackDaysOpen_closed local_ts_def MS_PER_DAY_def
      Date_UTC_def days_from_civil_def time_of_day_ms_def)


subsection \<open>Setting the time of day; the fallback timeout\<close>

lemma dt_set_Valid:
  "dt_set (Valid t off tz) f
   = Valid (fst (fixOffset (local_day_start t off
                   + time_of_day_ms (hour f) (minute f) (second f) (millisecond f)) off tz))
           (snd (fixOffset (local_day_start t off
                   + time_of_day_ms (hour f) (minute f) (second f) (millisecond f)) off tz))
           tz"
  by (simp add: dt_set_def Let_def case_prod_beta)

lemma dt_set_valid_iff: "dt_set dt f \<noteq> Invalid \<longleftrightarrow> dt \<noteq> Invalid"
  by (cases dt) (simp_all add: dt_set_def Let_def case_prod_beta)

lemma dt_set_stable:
  assumes "tz (local_day_start t off
             + time_of_day_ms (hour f) (minute f) (second f) (millisecond f) - off * 60 * 1000) = off"
  shows "dt_set (Valid t off tz) f
         = Valid (local_day_start t off
                    + time_of_day_ms (hour f) (minute f) (second f) (millisecond f) - off * 60 * 1000)
                 off tz"
  using assms by (simp add: dt_set_Valid fixOffset_def Let_def)

lemma local_day_start_mod: "local_day_start t off mod MS_PER_DAY = 0"
  by (simp add: local_day_start_def minus_mod_eq_mult_div)

lemma local_day_start_div: "local_day_start t off div MS_PER_DAY = local_ts t off div MS_PER_DAY"
  by (simp add: local_day_start_def minus_mod_eq_mult_div MS_PER_DAY_def)

lemma getTodayPT_valid: "getTodayPT z t \<noteq> Invalid \<longleftrightarrow> z \<noteq> None"
  by (cases z) (simp_all add: getTodayPT_def now_setZone_def)

lemma getFallbackTimeout_Some:
  "getFallbackTimeout (Some tz) t1 t2
   = ts (dt_set (getTodayPT (Some tz) t1)
           \<lparr>hour = FALLBACK_HOUR, minute = 0, second = 0, millisecond = 0\<rparr>) - t2"
  by (simp add: getFallbackTimeout_def getTodayPT_def now_setZone_def dt_set_Valid
      diffNow_milliseconds_def Let_def)

lemma getFallbackTimeout_None: "getFallbackTimeout None t1 t2 = FALLBACK_TIMEOUT"
  by (simp add: getFallbackTimeout_def getTodayPT_def now_setZone_def dt_set_def
      diffNow_milliseconds_def)

text \<open>
  Claim C10. When the current DateTime in the Pacific zone is valid, the difference
  between 10:00 today and now has a milliseconds value, so \<^verbatim>\<open>getFallbackTimeout\<close> does
  not take the constant \<^verbatim>\<open>FALLBACK_TIMEOUT\<close>: it returns the instant of today's 10:00 minus
  the instant of the second clock reading.
\<close>

theorem fallback_constant_unreachable:
  assumes "getTodayPT z t1 \<noteq> Invalid"
  shows "diffNow_milliseconds
           (dt_set (getTodayPT z t1)
              \<lparr>hour = FALLBACK_HOUR, minute = 0, second = 0, millisecond = 0\<rparr>) t2 \<noteq> None
         \<and> getFallbackTimeout z t1 t2
           = ts (dt_set (getTodayPT z t1)
                   \<lparr>hour = FALLBACK_HOUR, minute = 0, second = 0, millisecond = 0\<rparr>) - t2"
proof -
  from assms obtain tz where z: "z = Some tz"
    by (auto simp: getTodayPT_valid)
  have "diffNow_milliseconds
           (dt_set (getTodayPT z t1)
              \<lparr>hour = FALLBACK_HOUR, minute = 0, second = 0, millisecond = 0\<rparr>) t2 \<noteq> None"
    by (simp add: z getTodayPT_def now_setZone_def dt_set_Valid diffNow_milliseconds_def)
  then show ?thesis
    by (simp add: z getFallbackTimeout_Some)
qed

lemma monday_0930: "Date_UTC 2024 7 1 9 30 0 0 + 420 * 60 * 1000 = 1719851400000"
  by (simp add: Date_UTC_def days_from_civil_def time_of_day_ms_def MS_PER_DAY_def)

text \<open>
  At 09:30 local the fallback timeout is 30 minutes, not the constant of 3 minutes.
\<close>

theorem fallback_constant_unreachable_witness:
  "getTodayPT (Some zone_PDT) 1719851400000 \<noteq> Invalid
   \<and> getFallbackTimeout (Some zone_PDT) 1719851400000 1719851400000 = 1800000"
proof -
  have valid: "getTodayPT (Some zone_PDT) 1719851400000 \<noteq> Invalid"
    by (simp add: getTodayPT_valid)
  have "ts (dt_set (getTodayPT (Some zone_PDT) 1719851400000)
              \<lparr>hour = FALLBACK_HOUR, minute = 0, second = 0, millisecond = 0\<rparr>) - 1719851400000
        = 1800000"
    by (simp add: getTodayPT_def now_setZone_def zone_PDT_def dt_set_Valid fixOffset_def
        local_day_start_def local_ts_def time_of_day_ms_def FALLBACK_HOUR_def MS_PER_DAY_def)
  with fallback_constant_unreachable[OF valid, of 1719851400000] valid
  show ?thesis by simp
qed


subsection \<open>The scheduled job\<close>

lemma getBusinessHours_caught:
  assumes "r = Rejected
           \<or> r = Response False parsed
           \<or> r = Response isOk None
           \<or> (r = Response isOk (Some data) \<and> success_flag data = False)"
  shows "getBusinessHours r = None"
  using assms
  by (auto simp: getBusinessHours_def getBusinessHours_try_def success_flag_def
      split: option.splits sum.splits if_splits)

lemma getBusinessHours_flagged:
  "success_flag data \<Longrightarrow> getBusinessHours (Response True (Some data)) = Some data"
  by (auto simp: getBusinessHours_def getBusinessHours_try_def success_flag_def
      split: sum.splits)

lemma getProp_not_Obj:
  "(\<And>ps. v \<noteq> Obj ps) \<Longrightarrow> getProp v k = Inl TypeError \<or> getProp v k = Inr Undefined"
  by (cases v) auto

lemma getOpeningTime_Undefined: "getOpeningTime z Undefined t = Inl TypeError"
  by (simp add: getOpeningTime_def)

lemma getTimeout_no_location:
  assumes "\<And>ls. location \<noteq> Obj ls"
    and "getProp data ''results'' = Inr results"
    and "getProp results ''location'' = Inr location"
  shows "getTimeout z data t1 t2 t3 = None"
proof (cases "getCurrentDayOfWeekPT z t1")
  case (Inl e)
  then show ?thesis by (simp add: getTimeout_def getTimeout_try_def assms)
next
  case (Inr day)
  from getProp_not_Obj[OF assms(1), of day] show ?thesis
    by (auto simp: getTimeout_def getTimeout_try_def assms Inr getOpeningTime_Undefined)
qed

lemma getTimeout_no_hours_map:
  assumes "\<not> has_hours_map data"
  shows "getTimeout z data t1 t2 t3 = None"
proof (cases "getProp data ''results''")
  case (Inl e)
  then show ?thesis by (simp add: getTimeout_def getTimeout_try_def)
next
  case results: (Inr results)
  show ?thesis
  proof (cases "getProp results ''location''")
    case (Inl e)
    then show ?thesis by (simp add: getTimeout_def getTimeout_try_def results)
  next
    case (Inr location)
    have "location \<noteq> Obj ls" for ls
    proof
      assume loc: "location = Obj ls"
      with Inr obtain rs where "results = Obj rs" "map_of rs ''location'' = Some (Obj ls)"
        by (cases results) (auto split: option.splits)
      with results assms show False by (simp add: has_hours_map_def)
    qed
    then show ?thesis using results Inr by (rule getTimeout_no_location)
  qed
qed

lemma scheduled_skipped: "scheduled_timeout w = None \<Longrightarrow> scheduled w = (SKIPPED, [])"
  by (simp add: scheduled_def)

lemma scheduled_read_throws:
  "scheduled_timeout w = Some timeout \<Longrightarrow> dbFirst w = Inl e
   \<Longrightarrow> scheduled w = (Thrown e, [SelectDaysOpen PLAZA_BONITA_ID])"
  by (simp add: scheduled_def)

lemma scheduled_post_throws:
  "scheduled_timeout w = Some timeout \<Longrightarrow> dbFirst w = Inr row \<Longrightarrow> webhookFetch w = Inl e
   \<Longrightarrow> scheduled w
       = (Thrown e, [SelectDaysOpen PLAZA_BONITA_ID, Sleep timeout,
                     PostMessage (getMessage (scheduled_day w row))])"
  by (simp add: scheduled_def Let_def)

lemma scheduled_update_throws:
  "scheduled_timeout w = Some timeout \<Longrightarrow> dbFirst w = Inr row \<Longrightarrow> webhookFetch w = Inr status
   \<Longrightarrow> dbRun w = Inl e
   \<Longrightarrow> scheduled w
       = (Thrown e, [SelectDaysOpen PLAZA_BONITA_ID, Sleep timeout,
                     PostMessage (getMessage (scheduled_day w row)),
                     UpdateDaysOpen (scheduled_day w row + 1) PLAZA_BONITA_ID])"
  by (simp add: scheduled_def Let_def)

lemma scheduled_done:
  "scheduled_timeout w = Some timeout \<Longrightarrow> dbFirst w = Inr row \<Longrightarrow> webhookFetch w = Inr status
   \<Longrightarrow> dbRun w = Inr u
   \<Longrightarrow> scheduled w
       = (DONE, [SelectDaysOpen PLAZA_BONITA_ID, Sleep timeout,
                 PostMessage (getMessage (scheduled_day w row)),
                 UpdateDaysOpen (scheduled_day w row + 1) PLAZA_BONITA_ID])"
  by (simp add: scheduled_def Let_def)

lemma scheduled_not_skipped:
  "scheduled_timeout w = Some timeout \<Longrightarrow> fst (scheduled w) \<noteq> SKIPPED"
  by (simp add: scheduled_def Let_def split: sum.splits)

lemma scheduled_first_three:
  "scheduled_timeout w = Some timeout \<Longrightarrow> dbFirst w = Inr row
   \<Longrightarrow> take 3 (snd (scheduled w))
       = [SelectDaysOpen PLAZA_BONITA_ID, Sleep timeout,
          PostMessage (getMessage (scheduled_day w row))]"
  by (simp add: scheduled_def Let_def split: sum.splits)

text \<open>
  Claim C2, as amended. When the request for the hours is rejected, or its status is not
  2xx, or its body is not JSON, or the body's success flag is missing or falsy, then
  \<^verbatim>\<open>getBusinessHours\<close> returns \<^verbatim>\<open>undefined\<close> and the job's timeout is the fallback timeout, a
  number in every case: today's 10:00 in the Pacific zone minus now, or the constant of 3
  minutes when the zone gives no valid DateTime. The job is then not skipped, and once the
  database read has returned it sleeps for that timeout and posts the message. A JSON body
  with a truthy success flag that lacks the hours map (no object under \<^verbatim>\<open>results\<close>, or no
  object under its \<^verbatim>\<open>location\<close>) is not such a failure: the job is skipped.
\<close>

theorem fetch_failure_uses_fallback_timeout:
  "(hoursFetch w = Rejected
    \<or> hoursFetch w = Response False parsed
    \<or> hoursFetch w = Response isOk None
    \<or> (hoursFetch w = Response isOk (Some data) \<and> success_flag data = False)
    \<longrightarrow>
      getBusinessHours (hoursFetch w) = None
      \<and> scheduled_timeout w = Some (getFallbackTimeout (zonePT w) (clock w 0) (clock w 1))
      \<and> getFallbackTimeout (zonePT w) (clock w 0) (clock w 1)
          = (case zonePT w of
               Some tz \<Rightarrow>
                 ts (dt_set (now_setZone (Some tz) (clock w 0))
                       \<lparr>hour = 10, minute = 0, second = 0, millisecond = 0\<rparr>) - clock w 1
             | None \<Rightarrow> 3 * 60 * 1000)
      \<and> fst (scheduled w) \<noteq> SKIPPED
      \<and> (dbFirst w = Inr row \<longrightarrow>
           take 3 (snd (scheduled w))
           = [SelectDaysOpen PLAZA_BONITA_ID,
              Sleep (getFallbackTimeout (zonePT w) (clock w 0) (clock w 1)),
              PostMessage (getMessage (scheduled_day w row))]))
   \<and> (hoursFetch w = Response True (Some payload)
        \<and> success_flag payload \<and> has_hours_map payload = False
        \<longrightarrow> scheduled w = (SKIPPED, []))"
proof -
  have caught: "getBusinessHours (hoursFetch w) = None
      \<and> scheduled_timeout w = Some (getFallbackTimeout (zonePT w) (clock w 0) (clock w 1))
      \<and> getFallbackTimeout (zonePT w) (clock w 0) (clock w 1)
          = (case zonePT w of
               Some tz \<Rightarrow>
                 ts (dt_set (now_setZone (Some tz) (clock w 0))
                       \<lparr>hour = 10, minute = 0, second = 0, millisecond = 0\<rparr>) - clock w 1
             | None \<Rightarrow> 3 * 60 * 1000)
      \<and> fst (scheduled w) \<noteq> SKIPPED
      \<and> (dbFirst w = Inr row \<longrightarrow>
           take 3 (snd (scheduled w))
           = [SelectDaysOpen PLAZA_BONITA_ID,
              Sleep (getFallbackTimeout (zonePT w) (clock w 0) (clock w 1)),
              PostMessage (getMessage (scheduled_day w row))])"
    if failure: "hoursFetch w = Rejected
        \<or> hoursFetch w = Response False parsed
        \<or> hoursFetch w = Response isOk None
        \<or> (hoursFetch w = Response isOk (Some data) \<and> success_flag data = False)"
  proof -
    have none: "getBusinessHours (hoursFetch w) = None"
      using failure by (rule getBusinessHours_caught)
    then have timeout:
      "scheduled_timeout w = Some (getFallbackTimeout (zonePT w) (clock w 0) (clock w 1))"
      by (simp add: scheduled_timeout_def)
    have val: "getFallbackTimeout (zonePT w) (clock w 0) (clock w 1)
          = (case zonePT w of
               Some tz \<Rightarrow>
                 ts (dt_set (now_setZone (Some tz) (clock w 0))
                       \<lparr>hour = 10, minute = 0, second = 0, millisecond = 0\<rparr>) - clock w 1
             | None \<Rightarrow> 3 * 60 * 1000)"
      using getFallbackTimeout_Some getFallbackTimeout_None
      by (simp add: getTodayPT_def FALLBACK_HOUR_def FALLBACK_TIMEOUT_def split: option.splits)
    show ?thesis
      using none timeout val scheduled_not_skipped[OF timeout] scheduled_first_three[OF timeout]
      by blast
  qed
  have skipped: "scheduled w = (SKIPPED, [])"
    if "hoursFetch w = Response True (Some payload)" "success_flag payload"
      "has_hours_map payload = False"
  proof -
    have "getBusinessHours (hoursFetch w) = Some payload"
      using that(1,2) by (simp add: getBusinessHours_flagged)
    moreover have "getTimeout (zonePT w) payload (clock w 0) (clock w 1) (clock w 2) = None"
      using that(3) by (simp add: getTimeout_no_hours_map)
    ultimately show ?thesis
      by (simp add: scheduled_skipped scheduled_timeout_def)
  qed
  show ?thesis using caught skipped by blast
qed

lemma monday_0930_run:
  "clock ((monday_run 9 30 day hours row)\<lparr>hoursFetch := r\<rparr>) k = 1719851400000"
  by (simp add: monday_run_def clock_at_def Date_UTC_def days_from_civil_def time_of_day_ms_def
      MS_PER_DAY_def)

text \<open>
  A response with an error status and no JSON body at 09:30 local: the job sleeps for 30
  minutes and posts the message of day 7. A response whose body has a true success flag
  and an empty \<^verbatim>\<open>results\<close> object: the job is skipped.
\<close>

theorem fetch_failure_uses_fallback_timeout_witness:
  "take 3 (snd (scheduled ((monday_run 9 30 ''monday'' (Str ''10am-2am'') (Some 7))
                              \<lparr>hoursFetch := Response False None\<rparr>)))
     = [SelectDaysOpen 39156327, Sleep 1800000, PostMessage ''Round1 Plaza Bonita Day 7: START'']
   \<and> scheduled ((monday_run 9 30 ''monday'' (Str ''10am-2am'') (Some 7))
                  \<lparr>hoursFetch :=
                     Response True (Some (Obj [(''success'', Bool True), (''results'', Obj [])]))\<rparr>)
     = (SKIPPED, [])"
proof -
  let ?w = "(monday_run 9 30 ''monday'' (Str ''10am-2am'') (Some 7))
              \<lparr>hoursFetch := Response False None\<rparr>"
  let ?body = "Obj [(''success'', Bool True), (''results'', Obj [])]"
  let ?v = "(monday_run 9 30 ''monday'' (Str ''10am-2am'') (Some 7))
              \<lparr>hoursFetch := Response True (Some ?body)\<rparr>"
  have failed: "hoursFetch ?w = Response False None"
    by simp
  have row: "dbFirst ?w = Inr (Some 7)"
    by (simp add: monday_run_def)
  have zone: "zonePT ?w = Some zone_PDT"
    by (simp add: monday_run_def)
  have clk: "clock ?w k = 1719851400000" for k
    by (rule monday_0930_run)
  have msg: "getMessage (scheduled_day ?w (Some 7)) = ''Round1 Plaza Bonita Day 7: START''"
    by (simp add: scheduled_day_def getMessage_def number_to_string_def digit_char_def)
  have ms: "ts (dt_set (now_setZone (Some zone_PDT) 1719851400000)
                  \<lparr>hour = 10, minute = 0, second = 0, millisecond = 0\<rparr>) - 1719851400000
            = 1800000"
    by (simp add: now_setZone_def zone_PDT_def dt_set_Valid fixOffset_def
        local_day_start_def local_ts_def time_of_day_ms_def MS_PER_DAY_def)
  from fetch_failure_uses_fallback_timeout[of ?w None _ _ "Some 7"] failed row
  have "getFallbackTimeout (zonePT ?w) (clock ?w 0) (clock ?w 1)
        = (case zonePT ?w of
             Some tz \<Rightarrow>
               ts (dt_set (now_setZone (Some tz) (clock ?w 0))
                     \<lparr>hour = 10, minute = 0, second = 0, millisecond = 0\<rparr>) - clock ?w 1
           | None \<Rightarrow> 3 * 60 * 1000)"
    and "take 3 (snd (scheduled ?w))
         = [SelectDaysOpen PLAZA_BONITA_ID,
            Sleep (getFallbackTimeout (zonePT ?w) (clock ?w 0) (clock ?w 1)),
            PostMessage (getMessage (scheduled_day ?w (Some 7)))]"
    by blast+
  then have events: "take 3 (snd (scheduled ?w))
         = [SelectDaysOpen 39156327, Sleep 1800000,
            PostMessage ''Round1 Plaza Bonita Day 7: START'']"
    by (simp only: zone clk msg ms option.case PLAZA_BONITA_ID_def)
  have fetched: "hoursFetch ?v = Response True (Some ?body)"
    by simp
  have flagged: "success_flag ?body"
    by (simp add: success_flag_def)
  have no_map: "has_hours_map ?body = False"
    by (simp add: has_hours_map_def)
  from fetch_failure_uses_fallback_timeout[of ?v _ _ _ _ ?body] fetched flagged no_map
  have "scheduled ?v = (SKIPPED, [])"
    by blast
  with events show ?thesis by simp
qed

text \<open>
  Claim C2 as the specification states it fails: a response with status 2xx whose JSON
  body is \<^verbatim>\<open>{"success": true}\<close>, without \<^verbatim>\<open>results\<close>, is a malformed payload, and the job
  does not use the fallback timeout on it: it is skipped and nothing is sent.
\<close>

theorem misshapen_payload_is_skipped:
  "fetch_failed (hoursFetch ((monday_run 9 30 ''monday'' (Str ''10am-2am'') (Some 7))
                               \<lparr>hoursFetch := Response True (Some (Obj [(''success'', Bool True)]))\<rparr>))
   \<and> scheduled ((monday_run 9 30 ''monday'' (Str ''10am-2am'') (Some 7))
                  \<lparr>hoursFetch := Response True (Some (Obj [(''success'', Bool True)]))\<rparr>)
     = (SKIPPED, [])"
proof -
  let ?body = "Obj [(''success'', Bool True)]"
  have "fetch_failed (Response True (Some ?body))"
    by (simp add: fetch_failed_def payload_well_formed_def has_hours_map_def)
  moreover have "getBusinessHours (Response True (Some ?body)) = Some ?body"
    by (simp add: getBusinessHours_flagged success_flag_def)
  moreover have "getTimeout z ?body t1 t2 t3 = None" for z t1 t2 t3
    by (simp add: getTimeout_no_hours_map has_hours_map_def)
  ultimately show ?thesis
    by (simp add: scheduled_skipped scheduled_timeout_def)
qed

lemma getCurrentDayOfWeekPT_Inr:
  "getCurrentDayOfWeekPT z t = Inr day \<Longrightarrow> z \<noteq> None"
  by (cases z) (simp_all add: getCurrentDayOfWeekPT_def getTodayPT_def now_setZone_def
      weekdayLong_def)

lemma getOpeningTime_unparsed:
  assumes "z \<noteq> None"
    and "getOpeningTime_opening hours = Inr token"
    and "fromFormat token ''ha'' = None" and "fromFormat token ''h a'' = None"
  shows "getOpeningTime z (Str hours) t = Inl InvalidArgumentError"
  using assms
  by (auto simp: getOpeningTime_def getOpeningTime_parsed_def dt_set_from_def getTodayPT_def
      now_setZone_def)

lemma getOpeningTime_parsed_ok:
  assumes "getOpeningTime_opening hours = Inr token"
    and "getOpeningTime_parsed token = Some f"
  shows "getOpeningTime (Some tz) (Str hours) t = Inr (dt_set (getTodayPT (Some tz) t) f)"
  using assms
  by (simp add: getOpeningTime_def dt_set_from_def getTodayPT_def now_setZone_def)

text \<open>
  Claim C1. The hours fetch succeeded and the answer holds an hours map. If the map has no
  entry for today's weekday, or its entry is a text whose opening token neither format
  parses, then \<^verbatim>\<open>getTimeout\<close> returns \<^verbatim>\<open>undefined\<close> and the job ends skipped, having
  called neither the database nor the webhook.
\<close>

theorem unparseable_hours_skipped:
  assumes fetch: "getBusinessHours (hoursFetch w) = Some data"
    and res: "getProp data ''results'' = Inr results"
    and loc: "getProp results ''location'' = Inr (Obj hoursMap)"
    and day: "getCurrentDayOfWeekPT (zonePT w) (clock w 0) = Inr day"
    and bad: "map_of hoursMap day = None
              \<or> (map_of hoursMap day = Some (Str hours)
                  \<and> getOpeningTime_opening hours = Inr token
                  \<and> fromFormat token ''ha'' = None \<and> fromFormat token ''h a'' = None)"
  shows "getTimeout (zonePT w) data (clock w 0) (clock w 1) (clock w 2) = None
         \<and> scheduled w = (SKIPPED, [])"
proof -
  have zone: "zonePT w \<noteq> None"
    using day by (rule getCurrentDayOfWeekPT_Inr)
  have "getTimeout (zonePT w) data (clock w 0) (clock w 1) (clock w 2) = None"
    using bad
  proof
    assume "map_of hoursMap day = None"
    then show ?thesis
      by (simp add: getTimeout_def getTimeout_try_def res loc day getOpeningTime_def)
  next
    assume b: "map_of hoursMap day = Some (Str hours)
                  \<and> getOpeningTime_opening hours = Inr token
                  \<and> fromFormat token ''ha'' = None \<and> fromFormat token ''h a'' = None"
    then have "getOpeningTime (zonePT w) (Str hours) (clock w 1) = Inl InvalidArgumentError"
      using zone by (simp add: getOpeningTime_unparsed)
    with b show ?thesis
      by (simp add: getTimeout_def getTimeout_try_def res loc day)
  qed
  then show ?thesis
    by (simp add: scheduled_skipped scheduled_timeout_def fetch)
qed

lemma monday_0900: "Date_UTC 2024 7 1 9 0 0 0 = 1719824400000"
  by (simp add: Date_UTC_def days_from_civil_def time_of_day_ms_def MS_PER_DAY_def)

lemma monday_is_monday:
  "getCurrentDayOfWeekPT (Some zone_PDT) 1719849600000 = Inr ''monday''"
  by code_simp

lemma hours_body_fetched:
  "getBusinessHours (Response True (Some (hours_body day hours))) = Some (hours_body day hours)"
  by (simp add: getBusinessHours_def getBusinessHours_try_def hours_body_def)

lemma hours_body_results:
  "getProp (hours_body day hours) ''results'' = Inr (Obj [(''location'', Obj [(day, hours)])])"
  by (simp add: hours_body_def)

text \<open>
  On a Monday, an hours map with an entry for Tuesday only, and an hours map whose Monday
  entry reads \<^verbatim>\<open>Closed\<close>: both runs are skipped.
\<close>

theorem unparseable_hours_skipped_witness:
  "scheduled (monday_run 9 0 ''tuesday'' (Str ''10am-2am'') (Some 7)) = (SKIPPED, [])
   \<and> scheduled (monday_run 9 0 ''monday'' (Str ''Closed'') (Some 7)) = (SKIPPED, [])"
proof -
  let ?a = "monday_run 9 0 ''tuesday'' (Str ''10am-2am'') (Some 7)"
  let ?b = "monday_run 9 0 ''monday'' (Str ''Closed'') (Some 7)"
  have day: "getCurrentDayOfWeekPT (zonePT (monday_run 9 0 d h r)) (clock (monday_run 9 0 d h r) 0)
             = Inr ''monday''" for d h r
    using monday_is_monday by (simp add: monday_run_def clock_at_def monday_0900)
  have fetch: "getBusinessHours (hoursFetch (monday_run 9 0 d h r)) = Some (hours_body d h)"
    for d h r
    by (simp add: monday_run_def hours_body_fetched)
  have loc: "getProp (Obj [(''location'', Obj [(d, h)])]) ''location'' = Inr (Obj [(d, h)])"
    for d h
    by simp
  have absent: "map_of [(''tuesday'', Str ''10am-2am'')] ''monday'' = None"
    by simp
  have closed: "map_of [(''monday'', Str ''Closed'')] ''monday'' = Some (Str ''Closed'')
                  \<and> getOpeningTime_opening ''Closed'' = Inr ''Closed''
                  \<and> fromFormat ''Closed'' ''ha'' = None \<and> fromFormat ''Closed'' ''h a'' = None"
    by (simp add: getOpeningTime_opening_def getOpeningTime_times_def js_split_def trim_def
        is_js_whitespace_def fromFormat_def is_digit_def)
  have a: "scheduled ?a = (SKIPPED, [])"
    using unparseable_hours_skipped[OF fetch hours_body_results loc day disjI1, OF absent]
    by simp
  have b: "scheduled ?b = (SKIPPED, [])"
    using unparseable_hours_skipped[OF fetch hours_body_results loc day disjI2, OF closed]
    by simp
  from a b show ?thesis by simp
qed


subsection \<open>The three known formats\<close>

lemma local_ts_back: "local_ts (l - off * 60 * 1000) off = l"
  by (simp add: local_ts_def)

lemma local_day_start_multiple: "\<exists>q. local_day_start t off = 86400000 * q"
  by (auto simp: local_day_start_def minus_mod_eq_mult_div MS_PER_DAY_def)

lemma ten_oclock_fields:
  fixes q :: int
  shows "(86400000 * q + 36000000) mod 86400000 div 3600000 = 10"
    and "(86400000 * q + 36000000) mod 3600000 div 60000 = 0"
    and "(86400000 * q + 36000000) mod 60000 div 1000 = 0"
    and "(86400000 * q + 36000000) mod 1000 = 0"
    and "(86400000 * q + 36000000) div 86400000 = q"
proof -
  have a: "86400000 * q + 36000000 = 3600000 * (24 * q + 10)" by simp
  have b: "86400000 * q + 36000000 = 60000 * (1440 * q + 600)" by simp
  have c: "86400000 * q + 36000000 = 1000 * (86400 * q + 36000)" by simp
  show "(86400000 * q + 36000000) mod 86400000 div 3600000 = 10" by simp
  show "(86400000 * q + 36000000) mod 3600000 div 60000 = 0" by (simp only: a) simp
  show "(86400000 * q + 36000000) mod 60000 div 1000 = 0" by (simp only: b) simp
  show "(86400000 * q + 36000000) mod 1000 = 0" by (simp only: c) simp
  show "(86400000 * q + 36000000) div 86400000 = q" by simp
qed

lemma dt_set_ten_fields:
  assumes "tz (local_day_start t (tz t) + time_of_day_ms 10 0 0 0 - tz t * 60 * 1000) = tz t"
  shows "dt_hour (dt_set (getTodayPT (Some tz) t)
                    \<lparr>hour = 10, minute = 0, second = 0, millisecond = 0\<rparr>) = Some 10"
    and "dt_minute (dt_set (getTodayPT (Some tz) t)
                    \<lparr>hour = 10, minute = 0, second = 0, millisecond = 0\<rparr>) = Some 0"
    and "dt_second (dt_set (getTodayPT (Some tz) t)
                    \<lparr>hour = 10, minute = 0, second = 0, millisecond = 0\<rparr>) = Some 0"
    and "dt_millisecond (dt_set (getTodayPT (Some tz) t)
                    \<lparr>hour = 10, minute = 0, second = 0, millisecond = 0\<rparr>) = Some 0"
    and "dt_local_day (dt_set (getTodayPT (Some tz) t)
                    \<lparr>hour = 10, minute = 0, second = 0, millisecond = 0\<rparr>)
         = dt_local_day (getTodayPT (Some tz) t)"
proof -
  obtain q where q: "local_day_start t (tz t) = 86400000 * q"
    using local_day_start_multiple by blast
  have set10: "dt_set (getTodayPT (Some tz) t)
                    \<lparr>hour = 10, minute = 0, second = 0, millisecond = 0\<rparr>
        = Valid (local_day_start t (tz t) + time_of_day_ms 10 0 0 0 - tz t * 60 * 1000) (tz t) tz"
    using assms by (simp add: getTodayPT_def now_setZone_def dt_set_stable)
  have day: "local_ts t (tz t) div 86400000 = q"
    using local_day_start_div[of t "tz t"] q by (simp add: MS_PER_DAY_def)
  show "dt_hour (dt_set (getTodayPT (Some tz) t)
                    \<lparr>hour = 10, minute = 0, second = 0, millisecond = 0\<rparr>) = Some 10"
    by (simp add: set10 dt_hour_def local_ts_def q time_of_day_ms_def MS_PER_DAY_def)
  show "dt_minute (dt_set (getTodayPT (Some tz) t)
                    \<lparr>hour = 10, minute = 0, second = 0, millisecond = 0\<rparr>) = Some 0"
    by (simp add: set10 dt_minute_def local_ts_def q time_of_day_ms_def ten_oclock_fields)
  show "dt_second (dt_set (getTodayPT (Some tz) t)
                    \<lparr>hour = 10, minute = 0, second = 0, millisecond = 0\<rparr>) = Some 0"
    by (simp add: set10 dt_second_def local_ts_def q time_of_day_ms_def ten_oclock_fields)
  show "dt_millisecond (dt_set (getTodayPT (Some tz) t)
                    \<lparr>hour = 10, minute = 0, second = 0, millisecond = 0\<rparr>) = Some 0"
    by (simp add: set10 dt_millisecond_def local_ts_def q time_of_day_ms_def ten_oclock_fields)
  show "dt_local_day (dt_set (getTodayPT (Some tz) t)
                    \<lparr>hour = 10, minute = 0, second = 0, millisecond = 0\<rparr>)
         = dt_local_day (getTodayPT (Some tz) t)"
  proof -
    have "dt_local_day (dt_set (getTodayPT (Some tz) t)
                    \<lparr>hour = 10, minute = 0, second = 0, millisecond = 0\<rparr>) = Some q"
      by (simp add: set10 dt_local_day_def local_ts_def q time_of_day_ms_def MS_PER_DAY_def)
    moreover have "dt_local_day (getTodayPT (Some tz) t) = Some q"
      using day by (simp add: dt_local_day_def getTodayPT_def now_setZone_def MS_PER_DAY_def)
    ultimately show ?thesis by simp
  qed
qed

lemma known_tokens:
  "getOpeningTime_opening ''10AM - 2AM'' = Inr ''10AM''"
  "getOpeningTime_opening ''10am-2am'' = Inr ''10am''"
  "getOpeningTime_opening ''10am to 2am'' = Inr ''10am''"
  by (simp_all add: getOpeningTime_opening_def getOpeningTime_times_def js_split_def trim_def
      is_js_whitespace_def)

lemma known_parses:
  "getOpeningTime_parsed ''10AM'' = Some \<lparr>hour = 10, minute = 0, second = 0, millisecond = 0\<rparr>"
  "getOpeningTime_parsed ''10am'' = Some \<lparr>hour = 10, minute = 0, second = 0, millisecond = 0\<rparr>"
  by code_simp+

lemma getOpeningTime_any_zone:
  assumes "getOpeningTime_opening hours = Inr token"
    and "getOpeningTime_parsed token = Some f"
  shows "getOpeningTime z (Str hours) t = Inr (dt_set (getTodayPT z t) f)"
  using assms
  by (cases z) (simp_all add: getOpeningTime_def dt_set_from_def getTodayPT_def now_setZone_def
      dt_set_def)

text \<open>
  Claim C5. For each of the three known formats the parser yields the same DateTime:
  today in the Pacific zone set to hour 10, minute 0, second 0, millisecond 0. Where the
  zone has the same offset at that local time as now, this DateTime reads hour 10 and
  minute 0 on today's local date.
\<close>

theorem known_formats_open_at_ten:
  "getOpeningTime z (Str ''10AM - 2AM'') t
     = Inr (dt_set (getTodayPT z t) \<lparr>hour = 10, minute = 0, second = 0, millisecond = 0\<rparr>)
   \<and> getOpeningTime z (Str ''10am-2am'') t
     = Inr (dt_set (getTodayPT z t) \<lparr>hour = 10, minute = 0, second = 0, millisecond = 0\<rparr>)
   \<and> getOpeningTime z (Str ''10am to 2am'') t
     = Inr (dt_set (getTodayPT z t) \<lparr>hour = 10, minute = 0, second = 0, millisecond = 0\<rparr>)
   \<and> (tz (local_day_start t (tz t) + time_of_day_ms 10 0 0 0 - tz t * 60 * 1000) = tz t \<longrightarrow>
        dt_hour (dt_set (getTodayPT (Some tz) t)
                   \<lparr>hour = 10, minute = 0, second = 0, millisecond = 0\<rparr>) = Some 10
        \<and> dt_minute (dt_set (getTodayPT (Some tz) t)
                   \<lparr>hour = 10, minute = 0, second = 0, millisecond = 0\<rparr>) = Some 0
        \<and> dt_local_day (dt_set (getTodayPT (Some tz) t)
                   \<lparr>hour = 10, minute = 0, second = 0, millisecond = 0\<rparr>)
          = dt_local_day (getTodayPT (Some tz) t))"
  using getOpeningTime_any_zone[OF known_tokens(1) known_parses(1), of z t]
    getOpeningTime_any_zone[OF known_tokens(2) known_parses(2), of z t]
    getOpeningTime_any_zone[OF known_tokens(3) known_parses(2), of z t]
    dt_set_ten_fields(1,2,5)[of tz t]
  by blast

text \<open>
  On Monday 2024-07-01 at 09:00 local the opening is 10:00 local of the same day.
\<close>

theorem known_formats_open_at_ten_witness:
  "zone_PDT (local_day_start 1719849600000 (zone_PDT 1719849600000) + time_of_day_ms 10 0 0 0
             - zone_PDT 1719849600000 * 60 * 1000) = zone_PDT 1719849600000
   \<and> dt_hour (dt_set (getTodayPT (Some zone_PDT) 1719849600000)
                \<lparr>hour = 10, minute = 0, second = 0, millisecond = 0\<rparr>) = Some 10
   \<and> dt_minute (dt_set (getTodayPT (Some zone_PDT) 1719849600000)
                \<lparr>hour = 10, minute = 0, second = 0, millisecond = 0\<rparr>) = Some 0
   \<and> ts (dt_set (getTodayPT (Some zone_PDT) 1719849600000)
                \<lparr>hour = 10, minute = 0, second = 0, millisecond = 0\<rparr>)
     = Date_UTC 2024 7 1 10 0 0 0 + 420 * 60 * 1000"
proof -
  have stable: "zone_PDT (local_day_start 1719849600000 (zone_PDT 1719849600000)
                  + time_of_day_ms 10 0 0 0 - zone_PDT 1719849600000 * 60 * 1000)
                = zone_PDT 1719849600000"
    by (simp add: zone_PDT_def)
  have instant: "ts (dt_set (getTodayPT (Some zone_PDT) 1719849600000)
                \<lparr>hour = 10, minute = 0, second = 0, millisecond = 0\<rparr>)
     = Date_UTC 2024 7 1 10 0 0 0 + 420 * 60 * 1000"
    by (simp add: getTodayPT_def now_setZone_def zone_PDT_def dt_set_Valid fixOffset_def
        local_day_start_def local_ts_def time_of_day_ms_def MS_PER_DAY_def Date_UTC_def
        days_from_civil_def)
  from known_formats_open_at_ten[where tz = zone_PDT and t = 1719849600000] stable
  have "dt_hour (dt_set (getTodayPT (Some zone_PDT) 1719849600000)
                \<lparr>hour = 10, minute = 0, second = 0, millisecond = 0\<rparr>) = Some 10
   \<and> dt_minute (dt_set (getTodayPT (Some zone_PDT) 1719849600000)
                \<lparr>hour = 10, minute = 0, second = 0, millisecond = 0\<rparr>) = Some 0"
    by blast
  with stable instant show ?thesis by simp
qed


lemma getTimeout_resolved:
  assumes res: "getProp data ''results'' = Inr results"
    and loc: "getProp results ''location'' = Inr (Obj hoursMap)"
    and day: "getCurrentDayOfWeekPT z t1 = Inr day"
    and hours: "map_of hoursMap day = Some hours"
    and resolved: "getOpeningTime z hours t2 = Inr (Valid topen off tz)"
  shows "getTimeout z data t1 t2 t3 = Some (topen - t3)"
  by (simp add: getTimeout_def getTimeout_try_def res loc day hours resolved
      diffNow_milliseconds_def)

text \<open>
  Claim C3, as amended. With a timeout decided: when the webhook request comes back with a
  response, whatever its status, the job goes on to request the update of the counter to
  the day number plus one, and ends normally when the update returns. A webhook request
  that throws ends the job with that error before any update is requested; an update or
  a database read that throws ends the job with that error too.
\<close>

theorem collaborator_errors_propagate:
  assumes "scheduled_timeout w = Some timeout"
  shows "(dbFirst w = Inr row \<and> webhookFetch w = Inr status \<longrightarrow>
            snd (scheduled w)
            = [SelectDaysOpen PLAZA_BONITA_ID, Sleep timeout,
               PostMessage (getMessage (scheduled_day w row)),
               UpdateDaysOpen (scheduled_day w row + 1) PLAZA_BONITA_ID]
            \<and> (dbRun w = Inr u \<longrightarrow> fst (scheduled w) = DONE))
       \<and> (dbFirst w = Inr row \<and> webhookFetch w = Inl e \<longrightarrow>
            scheduled w
            = (Thrown e, [SelectDaysOpen PLAZA_BONITA_ID, Sleep timeout,
                          PostMessage (getMessage (scheduled_day w row))]))
       \<and> (dbFirst w = Inr row \<and> webhookFetch w = Inr status \<and> dbRun w = Inl e \<longrightarrow>
            fst (scheduled w) = Thrown e)
       \<and> (dbFirst w = Inl e \<longrightarrow> scheduled w = (Thrown e, [SelectDaysOpen PLAZA_BONITA_ID]))"
proof -
  have a: "snd (scheduled w)
            = [SelectDaysOpen PLAZA_BONITA_ID, Sleep timeout,
               PostMessage (getMessage (scheduled_day w row)),
               UpdateDaysOpen (scheduled_day w row + 1) PLAZA_BONITA_ID]"
    if "dbFirst w = Inr row" "webhookFetch w = Inr status"
    using assms that by (simp add: scheduled_def Let_def split: sum.splits)
  have b: "fst (scheduled w) = DONE"
    if "dbFirst w = Inr row" "webhookFetch w = Inr status" "dbRun w = Inr u"
    using scheduled_done[OF assms that] by simp
  have c: "fst (scheduled w) = Thrown e"
    if "dbFirst w = Inr row" "webhookFetch w = Inr status" "dbRun w = Inl e"
    using scheduled_update_throws[OF assms that] by simp
  show ?thesis
    using a b c scheduled_post_throws[OF assms, of row e] scheduled_read_throws[OF assms, of e]
    by blast
qed

lemma monday_run_timeout:
  "scheduled_timeout ((monday_run 9 0 ''monday'' (Str ''10am-2am'') row)\<lparr>webhookFetch := x\<rparr>)
   = Some 3600000"
  by code_simp

lemma scheduled_day_Some: "scheduled_day w (Some d) = d"
  by (simp add: scheduled_day_def)

lemma day_seven_message: "getMessage 7 = ''Round1 Plaza Bonita Day 7: START''"
  by (simp add: getMessage_def number_to_string_def digit_char_def)

text \<open>
  A webhook answering with status 500: the update to 8 is requested and the job is done.
  A webhook request that throws: the job ends with the error after the post.
\<close>

theorem collaborator_errors_propagate_witness:
  "snd (scheduled ((monday_run 9 0 ''monday'' (Str ''10am-2am'') (Some 7))
                     \<lparr>webhookFetch := Inr 500\<rparr>))
     = [SelectDaysOpen 39156327, Sleep 3600000,
        PostMessage ''Round1 Plaza Bonita Day 7: START'', UpdateDaysOpen 8 39156327]
   \<and> fst (scheduled ((monday_run 9 0 ''monday'' (Str ''10am-2am'') (Some 7))
                     \<lparr>webhookFetch := Inr 500\<rparr>)) = DONE
   \<and> scheduled ((monday_run 9 0 ''monday'' (Str ''10am-2am'') (Some 7))
                     \<lparr>webhookFetch := Inl Error\<rparr>)
     = (Thrown Error, [SelectDaysOpen 39156327, Sleep 3600000,
                       PostMessage ''Round1 Plaza Bonita Day 7: START''])"
proof -
  let ?a = "(monday_run 9 0 ''monday'' (Str ''10am-2am'') (Some 7))\<lparr>webhookFetch := Inr 500\<rparr>"
  let ?b = "(monday_run 9 0 ''monday'' (Str ''10am-2am'') (Some 7))\<lparr>webhookFetch := Inl Error\<rparr>"
  have row_a: "dbFirst ?a = Inr (Some 7) \<and> webhookFetch ?a = Inr 500"
    by (simp add: monday_run_def)
  have run_a: "dbRun ?a = Inr ()"
    by (simp add: monday_run_def)
  have row_b: "dbFirst ?b = Inr (Some 7) \<and> webhookFetch ?b = Inl Error"
    by (simp add: monday_run_def)
  note a = collaborator_errors_propagate[OF monday_run_timeout, of "Inr 500" "Some 7" "Some 7" 500 "()"]
  note b = collaborator_errors_propagate[OF monday_run_timeout, of "Inl Error" "Some 7" "Some 7" _ _ Error]
  from a row_a run_a
  have "snd (scheduled ?a)
            = [SelectDaysOpen PLAZA_BONITA_ID, Sleep 3600000,
               PostMessage (getMessage (scheduled_day ?a (Some 7))),
               UpdateDaysOpen (scheduled_day ?a (Some 7) + 1) PLAZA_BONITA_ID]"
    and finished: "fst (scheduled ?a) = DONE"
    by blast+
  then have events: "snd (scheduled ?a)
     = [SelectDaysOpen 39156327, Sleep 3600000,
        PostMessage ''Round1 Plaza Bonita Day 7: START'', UpdateDaysOpen 8 39156327]"
    by (simp add: day_seven_message PLAZA_BONITA_ID_def scheduled_day_Some)
  from b row_b
  have "scheduled ?b
            = (Thrown Error, [SelectDaysOpen PLAZA_BONITA_ID, Sleep 3600000,
                          PostMessage (getMessage (scheduled_day ?b (Some 7)))])"
    by blast
  then have thrown: "scheduled ?b
     = (Thrown Error, [SelectDaysOpen 39156327, Sleep 3600000,
                       PostMessage ''Round1 Plaza Bonita Day 7: START''])"
    by (simp add: day_seven_message PLAZA_BONITA_ID_def scheduled_day_Some)
  from events finished thrown show ?thesis by simp
qed

text \<open>
  Claim C3 as the specification states it fails: when the webhook request is rejected with
  a network error, the job ends with that error, and no update of the counter has been
  requested.
\<close>

theorem dispatch_error_ends_the_run:
  "scheduled ((monday_run 9 0 ''monday'' (Str ''10am-2am'') (Some 7))
                \<lparr>webhookFetch := Inl NetworkError\<rparr>)
   = (Thrown NetworkError,
      [SelectDaysOpen 39156327, Sleep 3600000, PostMessage ''Round1 Plaza Bonita Day 7: START''])"
  by code_simp


text \<open>
  Claim C8, as amended. The hours map holds a text for today's weekday whose opening token
  parses, the database holds the counter \<open>n\<close>, and the webhook request comes back with a
  response. Then the job reads the counter, sleeps until the opening, posts
  \<^verbatim>\<open>Round1 Plaza Bonita Day n: START\<close> and requests the update of the counter of the
  venue to \<open>n + 1\<close>. With the hours
  \<^verbatim>\<open>10am-2am\<close> on a Monday at 09:00 local and the counter 7, the delay is 60 minutes, the
  message is that of day 7 and the update writes 8.
\<close>

theorem opening_message_and_increment:
  assumes fetch: "getBusinessHours (hoursFetch w) = Some data"
    and zone: "zonePT w = Some tz"
    and res: "getProp data ''results'' = Inr results"
    and loc: "getProp results ''location'' = Inr (Obj hoursMap)"
    and day: "getCurrentDayOfWeekPT (zonePT w) (clock w 0) = Inr day"
    and hours: "map_of hoursMap day = Some (Str hours)"
    and token: "getOpeningTime_opening hours = Inr token"
    and parsed: "getOpeningTime_parsed token = Some f"
    and counter: "dbFirst w = Inr (Some n)"
    and posted: "webhookFetch w = Inr status"
  shows "snd (scheduled w)
         = [SelectDaysOpen PLAZA_BONITA_ID,
            Sleep (ts (dt_set (getTodayPT (Some tz) (clock w 1)) f) - clock w 2),
            PostMessage (''Round1 Plaza Bonita Day '' @ number_to_string n @ '': START''),
            UpdateDaysOpen (n + 1) PLAZA_BONITA_ID]
       \<and> (dbRun w = Inr u \<longrightarrow> fst (scheduled w) = DONE)
       \<and> scheduled (monday_run 9 0 ''monday'' (Str ''10am-2am'') (Some 7))
         = (DONE, [SelectDaysOpen 39156327, Sleep (60 * 60 * 1000),
                   PostMessage ''Round1 Plaza Bonita Day 7: START'',
                   UpdateDaysOpen 8 39156327])"
proof -
  have "getOpeningTime (zonePT w) (Str hours) (clock w 1)
        = Inr (dt_set (getTodayPT (Some tz) (clock w 1)) f)"
    using token parsed by (simp add: zone getOpeningTime_any_zone)
  moreover have "dt_set (getTodayPT (Some tz) (clock w 1)) f
        = Valid (ts (dt_set (getTodayPT (Some tz) (clock w 1)) f))
                (offset (dt_set (getTodayPT (Some tz) (clock w 1)) f)) tz"
    by (simp add: getTodayPT_def now_setZone_def dt_set_Valid)
  ultimately have "getTimeout (zonePT w) data (clock w 0) (clock w 1) (clock w 2)
        = Some (ts (dt_set (getTodayPT (Some tz) (clock w 1)) f) - clock w 2)"
    using getTimeout_resolved[OF res loc day hours] by simp
  then have timeout: "scheduled_timeout w
        = Some (ts (dt_set (getTodayPT (Some tz) (clock w 1)) f) - clock w 2)"
    by (simp add: scheduled_timeout_def fetch)
  have events: "snd (scheduled w)
         = [SelectDaysOpen PLAZA_BONITA_ID,
            Sleep (ts (dt_set (getTodayPT (Some tz) (clock w 1)) f) - clock w 2),
            PostMessage (''Round1 Plaza Bonita Day '' @ number_to_string n @ '': START''),
            UpdateDaysOpen (n + 1) PLAZA_BONITA_ID]"
    using timeout counter posted
    by (simp add: scheduled_def Let_def scheduled_day_Some getMessage_def split: sum.splits)
  have finished: "fst (scheduled w) = DONE" if "dbRun w = Inr u"
    using scheduled_done[OF timeout counter posted that] by simp
  have example: "scheduled (monday_run 9 0 ''monday'' (Str ''10am-2am'') (Some 7))
         = (DONE, [SelectDaysOpen 39156327, Sleep (60 * 60 * 1000),
                   PostMessage ''Round1 Plaza Bonita Day 7: START'',
                   UpdateDaysOpen 8 39156327])"
    by code_simp
  show ?thesis using events finished example by blast
qed

lemma monday_0800: "Date_UTC 2024 7 1 8 0 0 0 = 1719820800000"
  by (simp add: Date_UTC_def days_from_civil_def time_of_day_ms_def MS_PER_DAY_def)

text \<open>
  The hours \<^verbatim>\<open>10AM - 2AM\<close> on a Monday at 08:00 local with the counter 41: a delay of two
  hours, the message of day 41, the update to 42.
\<close>

theorem opening_message_and_increment_witness:
  "snd (scheduled (monday_run 8 0 ''monday'' (Str ''10AM - 2AM'') (Some 41)))
   = [SelectDaysOpen 39156327, Sleep 7200000,
      PostMessage ''Round1 Plaza Bonita Day 41: START'', UpdateDaysOpen 42 39156327]
   \<and> fst (scheduled (monday_run 8 0 ''monday'' (Str ''10AM - 2AM'') (Some 41))) = DONE"
proof -
  let ?w = "monday_run 8 0 ''monday'' (Str ''10AM - 2AM'') (Some 41)"
  have fetch: "getBusinessHours (hoursFetch ?w) = Some (hours_body ''monday'' (Str ''10AM - 2AM''))"
    by (simp add: monday_run_def hours_body_fetched)
  have zone: "zonePT ?w = Some zone_PDT"
    by (simp add: monday_run_def)
  have clk: "clock ?w k = 1719846000000" for k
    by (simp add: monday_run_def clock_at_def monday_0800)
  have day: "getCurrentDayOfWeekPT (zonePT ?w) (clock ?w 0) = Inr ''monday''"
    unfolding zone clk by code_simp
  have loc: "getProp (Obj [(''location'', Obj [(''monday'', Str ''10AM - 2AM'')])]) ''location''
             = Inr (Obj [(''monday'', Str ''10AM - 2AM'')])"
    by simp
  have hours: "map_of [(''monday'', Str ''10AM - 2AM'')] ''monday'' = Some (Str ''10AM - 2AM'')"
    by simp
  have counter: "dbFirst ?w = Inr (Some 41)" and posted: "webhookFetch ?w = Inr 204"
    and updated: "dbRun ?w = Inr ()"
    by (simp_all add: monday_run_def)
  have ms: "ts (dt_set (getTodayPT (Some zone_PDT) 1719846000000)
                  \<lparr>hour = 10, minute = 0, second = 0, millisecond = 0\<rparr>) - 1719846000000
            = 7200000"
    by (simp add: getTodayPT_def now_setZone_def zone_PDT_def dt_set_Valid fixOffset_def
        local_day_start_def local_ts_def time_of_day_ms_def MS_PER_DAY_def)
  have msg: "''Round1 Plaza Bonita Day '' @ number_to_string 41 @ '': START''
             = ''Round1 Plaza Bonita Day 41: START''"
    by code_simp
  note run = opening_message_and_increment[OF fetch zone hours_body_results loc day hours
      known_tokens(1) known_parses(1) counter posted, of "()"]
  from run updated
  have "snd (scheduled ?w)
         = [SelectDaysOpen PLAZA_BONITA_ID,
            Sleep (ts (dt_set (getTodayPT (Some zone_PDT) (clock ?w 1))
                         \<lparr>hour = 10, minute = 0, second = 0, millisecond = 0\<rparr>) - clock ?w 2),
            PostMessage (''Round1 Plaza Bonita Day '' @ number_to_string 41 @ '': START''),
            UpdateDaysOpen (41 + 1) PLAZA_BONITA_ID]"
    and finished: "fst (scheduled ?w) = DONE"
    by blast+
  then have "snd (scheduled ?w)
   = [SelectDaysOpen 39156327, Sleep 7200000,
      PostMessage ''Round1 Plaza Bonita Day 41: START'', UpdateDaysOpen 42 39156327]"
    by (simp only: clk ms msg PLAZA_BONITA_ID_def) simp
  with finished show ?thesis by simp
qed

text \<open>
  Claim C8 as the specification states it fails: with the hours \<^verbatim>\<open>10AM - 2AM\<close> on a Monday
  at 08:00 local and the counter 41, a webhook request that is rejected ends the job with
  the error after the post, and no update of the counter to 42 is requested.
\<close>

theorem no_increment_after_rejected_post:
  "scheduled ((monday_run 8 0 ''monday'' (Str ''10AM - 2AM'') (Some 41))
                \<lparr>webhookFetch := Inl NetworkError\<rparr>)
   = (Thrown NetworkError,
      [SelectDaysOpen 39156327, Sleep 7200000, PostMessage ''Round1 Plaza Bonita Day 41: START''])"
  by code_simp






end
